theory Spec2Isabelle
  imports Complex_Main "HOL-Library.Char_ord" "HOL-Library.List_Lexorder"
begin

section \<open>JavaScript values and built-ins\<close>

text \<open>
  The two scripts verified here, \<^verbatim>\<open>csv-monitor.js\<close> (class \<^verbatim>\<open>CSVMonitor\<close>) and
  \<^verbatim>\<open>portfolio-logger.js\<close> (class \<^verbatim>\<open>PortfolioLogger\<close>), run in a browser. Their
  instance fields become records that are passed in and returned; what they read from
  the page, the network and the clock is gathered in the record \<open>browser\<close>; what they
  send out (status bar, notifications, the rebalance callback, the logged rows, chart
  points) is returned as data.

  A JavaScript number is an IEEE double: not-a-number, an infinity, or a finite value.
  The two zeros are identified: nothing below tells them apart (both are falsy, neither
  is \<open>> 0\<close>, and no division by a computed zero is ever made).
\<close>

datatype jsnum = NaN | NegInf | Fin real | PosInf

datatype js_value = Undefined | Null | Bool bool | Number jsnum | Str string | Object

text \<open>The result of \<^verbatim>\<open>await fetch(...)\<close> followed by reading the body: the promise
  rejects with a message, the response is not \<^verbatim>\<open>ok\<close>, or it is and carries a body.\<close>

datatype 'a fetch_result = Rejected string | NotOk | Ok 'a

text \<open>
  Built-ins of the JavaScript runtime that the scripts call and whose text is not part
  of the repository are taken as parameters: \<open>parseFloat\<close>, the rounding \<open>fl\<close> of an
  exact result to the nearest double, \<open>toFixed2\<close> for \<^verbatim>\<open>n.toFixed(2)\<close> and
  \<open>numToString\<close> for the conversion of a number to text in \<^verbatim>\<open>Array.join\<close>.
\<close>

record js_builtins =
  parseFloat :: "string \<Rightarrow> jsnum"
  fl :: "real \<Rightarrow> jsnum"
  toFixed2 :: "jsnum \<Rightarrow> string"
  numToString :: "jsnum \<Rightarrow> string"

text \<open>Truthiness, as tested by \<^verbatim>\<open>if (v)\<close>, \<^verbatim>\<open>!v\<close> and \<^verbatim>\<open>v || d\<close>.\<close>

fun truthy_num :: "jsnum \<Rightarrow> bool" where
  "truthy_num NaN = False"
| "truthy_num (Fin x) = (x \<noteq> 0)"
| "truthy_num NegInf = True"
| "truthy_num PosInf = True"

fun truthy :: "js_value \<Rightarrow> bool" where
  "truthy Undefined = False"
| "truthy Null = False"
| "truthy (Bool b) = b"
| "truthy (Number n) = truthy_num n"
| "truthy (Str s) = (s \<noteq> [])"
| "truthy Object = True"

text \<open>The comparison \<^verbatim>\<open>a > b\<close> on numbers: false as soon as one side is not a number.\<close>

fun js_gt :: "jsnum \<Rightarrow> jsnum \<Rightarrow> bool" where
  "js_gt NaN _ = False"
| "js_gt _ NaN = False"
| "js_gt NegInf _ = False"
| "js_gt _ PosInf = False"
| "js_gt (Fin x) (Fin y) = (x > y)"
| "js_gt (Fin x) NegInf = True"
| "js_gt PosInf _ = True"

fun js_abs :: "jsnum \<Rightarrow> jsnum" where
  "js_abs NaN = NaN"
| "js_abs NegInf = PosInf"
| "js_abs PosInf = PosInf"
| "js_abs (Fin x) = Fin \<bar>x\<bar>"

text \<open>Addition, multiplication and division of doubles: the exact result of two finite
  operands is rounded by \<open>fl\<close> (which may overflow to an infinity).\<close>

fun js_add :: "js_builtins \<Rightarrow> jsnum \<Rightarrow> jsnum \<Rightarrow> jsnum" where
  "js_add B NaN _ = NaN"
| "js_add B _ NaN = NaN"
| "js_add B PosInf NegInf = NaN"
| "js_add B NegInf PosInf = NaN"
| "js_add B PosInf _ = PosInf"
| "js_add B NegInf _ = NegInf"
| "js_add B (Fin x) PosInf = PosInf"
| "js_add B (Fin x) NegInf = NegInf"
| "js_add B (Fin x) (Fin y) = fl B (x + y)"

definition js_sign :: "jsnum \<Rightarrow> real" where
  "js_sign a = (case a of NaN \<Rightarrow> 0 | NegInf \<Rightarrow> -1 | PosInf \<Rightarrow> 1 | Fin x \<Rightarrow> sgn x)"

definition js_inf :: "real \<Rightarrow> jsnum" where
  "js_inf s = (if s = 0 then NaN else if s > 0 then PosInf else NegInf)"

fun js_mul :: "js_builtins \<Rightarrow> jsnum \<Rightarrow> jsnum \<Rightarrow> jsnum" where
  "js_mul B NaN _ = NaN"
| "js_mul B _ NaN = NaN"
| "js_mul B (Fin x) (Fin y) = fl B (x * y)"
| "js_mul B a b = js_inf (js_sign a * js_sign b)"

text \<open>Division is only ever applied to a positive finite divisor (\<^verbatim>\<open>1000000\<close>, or
  \<^verbatim>\<open>avgLoss\<close> under the guard \<^verbatim>\<open>avgLoss > 0\<close>) or to positive infinity.\<close>

fun js_div :: "js_builtins \<Rightarrow> jsnum \<Rightarrow> jsnum \<Rightarrow> jsnum" where
  "js_div B NaN _ = NaN"
| "js_div B _ NaN = NaN"
| "js_div B (Fin x) (Fin y) = (if y = 0 then js_inf x else fl B (x / y))"
| "js_div B (Fin x) _ = Fin 0"
| "js_div B a (Fin y) = js_inf (js_sign a * (if y < 0 then -1 else 1))"
| "js_div B _ _ = NaN"

subsection \<open>Strings\<close>

text \<open>A string is the list of its code units, each below 256 (the Latin-1 range of
  JavaScript's UTF-16 strings). The white space and line terminators that
  \<^verbatim>\<open>String.prototype.trim\<close> removes are, in this range, tab, line feed, vertical tab,
  form feed, carriage return, space and the no-break space U+00A0.\<close>

definition is_space :: "char \<Rightarrow> bool" where
  "is_space c =
     (c \<in> set [CHR 0x09, CHR 0x0A, CHR 0x0B, CHR 0x0C, CHR 0x0D, CHR '' '', CHR 0xA0])"

definition trim :: "string \<Rightarrow> string" where
  "trim s = rev (dropWhile is_space (rev (dropWhile is_space s)))"

text \<open>\<^verbatim>\<open>s.split(sep)\<close> for a one-character separator: always at least one piece.\<close>

fun split_str :: "char \<Rightarrow> string \<Rightarrow> string list" where
  "split_str sep [] = [[]]"
| "split_str sep (c # cs) =
     (if c = sep then [] # split_str sep cs
      else (case split_str sep cs of
              p # ps \<Rightarrow> (c # p) # ps
            | [] \<Rightarrow> [[c]]))"

definition endsWith :: "string \<Rightarrow> string \<Rightarrow> bool" where
  "endsWith s searchString =
     (length searchString \<le> length s \<and> drop (length s - length searchString) s = searchString)"

definition is_digit :: "char \<Rightarrow> bool" where
  "is_digit c = (c \<in> set ''0123456789'')"

section \<open>The CSV monitor\<close>

subsection \<open>Data\<close>

text \<open>An entry of the list served by \<^verbatim>\<open>/api/csv-files\<close>.\<close>

record csv_file =
  filename :: string
  modified :: string
  size :: string

text \<open>A parsed CSV row: the own properties of the object \<^verbatim>\<open>row\<close>.\<close>

type_synonym row = "string \<rightharpoonup> string"

text \<open>A registered callback is modelled by its outcome on its arguments: \<open>None\<close> when
  the promise resolves, \<open>Some message\<close> when it throws or rejects.\<close>

type_synonym callback = "row list \<Rightarrow> string \<Rightarrow> string option"

record release_window =
  window_start :: real
  window_end :: real

text \<open>The fields of a \<^verbatim>\<open>CSVMonitor\<close>; \<open>monitorInterval\<close> is the period of the running
  timer, if there is one.\<close>

record monitor =
  currentCSV :: "string option"
  lastModified :: "string option"
  checkInterval :: nat
  isMonitoring :: bool
  onRebalanceCallback :: "callback option"
  onNewCSVCallback :: "callback option"
  csvReleaseWindow :: release_window
  monitorInterval :: "nat option"

text \<open>A \<^verbatim>\<open>Date\<close> object with what the scripts read from it.\<close>

record js_date =
  toISOString :: string
  toLocaleString_Paris :: string
  getHours :: nat
  getMinutes :: nat

text \<open>What the scripts read from their surroundings during one run:
  the clock; the two monitoring-server endpoints and the two local fetches of the
  monitor; the page elements (\<^verbatim>\<open>textContent\<close> by id), the globals
  \<^verbatim>\<open>portfolioData\<close> and \<^verbatim>\<open>window.cumulativePnL\<close>, and whether
  \<^verbatim>\<open>window.addPortfolioValueDataPoint\<close> is defined, for the logger.\<close>

datatype portfolio_global = Undeclared | Nullish | Positions "row list"

record browser =
  now :: js_date
  api_csv_files :: "csv_file list option fetch_result"
  head_local_csv :: "string option fetch_result"
  api_csv_content :: "string \<Rightarrow> js_value fetch_result"
  get_local_file :: "string \<Rightarrow> string fetch_result"
  elements :: "string \<rightharpoonup> string"
  portfolioData :: portfolio_global
  cumulativePnL :: js_value
  addPortfolioValueDataPoint :: bool

datatype notification = Success nat | Failure string

text \<open>What the monitor does to the outside: the status bar update, the invocation of
  the rebalance callback with a position set, the notification shown.\<close>

datatype effect =
    UpdateCSVStatus string
  | Rebalance "row list" string
  | ShowNotification notification

datatype monitor_error = Required_2355_not_found

subsection \<open>Operations\<close>

definition constructor :: monitor where
  "constructor =
     \<lparr> currentCSV = None, lastModified = None, checkInterval = 30000,
       isMonitoring = False, onRebalanceCallback = None, onNewCSVCallback = None,
       csvReleaseWindow = \<lparr> window_start = 0, window_end = 1/2 \<rparr>,
       monitorInterval = None \<rparr>"

definition setOnRebalance :: "callback \<Rightarrow> monitor \<Rightarrow> monitor" where
  "setOnRebalance cb this = this\<lparr> onRebalanceCallback := Some cb \<rparr>"

definition setOnNewCSV :: "callback \<Rightarrow> monitor \<Rightarrow> monitor" where
  "setOnNewCSV cb this = this\<lparr> onNewCSVCallback := Some cb \<rparr>"

definition fallback_filename :: string where
  "fallback_filename = ''lpxd_external_advisors_DF_20250916-0806.csv''"

definition getCSVFiles :: "browser \<Rightarrow> csv_file list" where
  "getCSVFiles b =
     (case api_csv_files b of
        Ok files \<Rightarrow> (case files of Some fs \<Rightarrow> fs | None \<Rightarrow> [])
      | NotOk \<Rightarrow> []
      | Rejected _ \<Rightarrow>
          (case head_local_csv b of
             Ok content_length \<Rightarrow>
               [\<lparr> filename = fallback_filename,
                  modified = toISOString (now b),
                  size = (case content_length of
                            Some l \<Rightarrow> if l = [] then ''0'' else l
                          | None \<Rightarrow> ''0'') \<rparr>]
           | NotOk \<Rightarrow> []
           | Rejected _ \<Rightarrow> []))"

text \<open>The test of \<^verbatim>\<open>/lpxd_external_advisors_DF_(\d{8}-\d{4})\.csv/\<close>: the expression has
  no anchors, so it matches at any position of the name. \<open>pattern_here\<close> is a match
  starting at the first character.\<close>

definition pattern_here :: "string \<Rightarrow> bool" where
  "pattern_here s =
     (take 26 s = ''lpxd_external_advisors_DF_'' \<and>
      (let r = drop 26 s in
         length (take 8 r) = 8 \<and> list_all is_digit (take 8 r) \<and>
         take 1 (drop 8 r) = ''-'' \<and>
         length (take 4 (drop 9 r)) = 4 \<and> list_all is_digit (take 4 (drop 9 r)) \<and>
         take 4 (drop 13 r) = ''.csv''))"

fun pattern_test :: "string \<Rightarrow> bool" where
  "pattern_test [] = pattern_here []"
| "pattern_test (c # cs) = (pattern_here (c # cs) \<or> pattern_test cs)"

definition findLatestCSV :: "csv_file list \<Rightarrow> monitor_error + csv_file option" where
  "findLatestCSV csvFiles =
     (let validFiles = filter (\<lambda>file. pattern_test (filename file)) csvFiles in
      if length validFiles = 0 then Inr None
      else (case find (\<lambda>file. endsWith (filename file) ''2355.csv'') validFiles of
              Some preferredFile \<Rightarrow> Inr (Some preferredFile)
            | None \<Rightarrow> Inl Required_2355_not_found))"

text \<open>A file the selector may return: its name passes the pattern test and ends in
  \<^verbatim>\<open>2355.csv\<close>.\<close>

abbreviation conforming :: "csv_file \<Rightarrow> bool" where
  "conforming file \<equiv> pattern_test (filename file) \<and> endsWith (filename file) ''2355.csv''"

text \<open>\<^verbatim>\<open>values[index] ? values[index].trim() : ''\<close>: an absent or empty cell is the
  empty string.\<close>

definition cell :: "string list \<Rightarrow> nat \<Rightarrow> string" where
  "cell values index =
     (if index < length values \<and> values ! index \<noteq> [] then trim (values ! index) else [])"

text \<open>The row is built by assignments \<^verbatim>\<open>row[header.trim()] = ...\<close> to an object that starts
  as \<^verbatim>\<open>{}\<close>. An assignment creates or overwrites the row's own property of that name,
  except for the name \<^verbatim>\<open>__proto__\<close>: that one reaches the setter inherited from
  \<^verbatim>\<open>Object.prototype\<close>, which ignores a string, and the row gets no such property.\<close>

definition assign :: "string \<Rightarrow> string \<Rightarrow> row \<Rightarrow> row" where
  "assign key v row = (if key = ''__proto__'' then row else row(key \<mapsto> v))"

definition parse_row :: "string list \<Rightarrow> string \<Rightarrow> row" where
  "parse_row headers line =
     (let values = split_str (CHR '','') line in
      fold (\<lambda>(index, header) row. assign (trim header) (cell values index) row)
           (zip [0..<length headers] headers) Map.empty)"

definition parseCSV :: "string \<Rightarrow> row list" where
  "parseCSV csvText =
     (let lines = split_str (CHR 0x0A) (trim csvText);
          headers = split_str (CHR '','') (hd lines)
      in map (parse_row headers) (tl lines))"

text \<open>Loading the file's text in \<^verbatim>\<open>triggerRebalancing\<close>: the monitoring server first
  (any failure there is swallowed), the local file when that gave nothing truthy.
  \<open>Inl\<close> is the message of the error thrown.\<close>

definition loadCSVText :: "browser \<Rightarrow> string \<Rightarrow> string + js_value" where
  "loadCSVText b csvFilename =
     (let csvText = (case api_csv_content b csvFilename of
                       Ok content \<Rightarrow> content
                     | NotOk \<Rightarrow> Null
                     | Rejected _ \<Rightarrow> Null)
      in if \<not> truthy csvText then
           (case get_local_file b csvFilename of
              Rejected msg \<Rightarrow> Inl msg
            | NotOk \<Rightarrow> Inl (''Failed to load '' @ csvFilename)
            | Ok text \<Rightarrow> Inr (Str text))
         else Inr csvText)"

definition triggerRebalancing :: "browser \<Rightarrow> monitor \<Rightarrow> string \<Rightarrow> effect list" where
  "triggerRebalancing b this csvFilename =
     UpdateCSVStatus csvFilename #
     (case loadCSVText b csvFilename of
        Inl msg \<Rightarrow> [ShowNotification (Failure msg)]
      | Inr (Str csvText) \<Rightarrow>
          (let newPortfolioData = parseCSV csvText in
           case onRebalanceCallback this of
             None \<Rightarrow> [ShowNotification (Success (length newPortfolioData))]
           | Some cb \<Rightarrow>
               (case cb newPortfolioData csvFilename of
                  None \<Rightarrow> [Rebalance newPortfolioData csvFilename,
                            ShowNotification (Success (length newPortfolioData))]
                | Some msg \<Rightarrow> [Rebalance newPortfolioData csvFilename,
                                ShowNotification (Failure msg)]))
      | Inr _ \<Rightarrow> [ShowNotification (Failure ''csvText.trim is not a function'')])"

definition checkForNewCSV :: "browser \<Rightarrow> monitor \<Rightarrow> monitor \<times> effect list" where
  "checkForNewCSV b this =
     (let csvFiles = getCSVFiles b in
      if length csvFiles = 0 then (this, [])
      else (case findLatestCSV csvFiles of
              Inl err \<Rightarrow> (this, [])
            | Inr None \<Rightarrow> (this, [])
            | Inr (Some latestCSV) \<Rightarrow>
                if currentCSV this \<noteq> Some (filename latestCSV) \<or>
                   lastModified this \<noteq> Some (modified latestCSV)
                then (let this' = this\<lparr> currentCSV := Some (filename latestCSV),
                                          lastModified := Some (modified latestCSV) \<rparr>
                      in (this', triggerRebalancing b this' (filename latestCSV)))
                else (this, [])))"

definition updateCheckInterval :: "js_date \<Rightarrow> monitor \<Rightarrow> monitor" where
  "updateCheckInterval now' this =
     (let currentHour = getHours now';
          currentMinute = getMinutes now';
          currentTime = real currentHour + real currentMinute / 60;
          inReleaseWindow = (currentTime \<ge> window_start (csvReleaseWindow this) \<and>
                             currentTime \<le> window_end (csvReleaseWindow this));
          newInterval = (if inReleaseWindow then 10000 else 60000)
      in if newInterval \<noteq> checkInterval this
         then (let this' = this\<lparr> checkInterval := newInterval \<rparr>
               in if isMonitoring this'
                  then this'\<lparr> monitorInterval := Some (checkInterval this') \<rparr>
                  else this')
         else this)"

section \<open>The portfolio logger\<close>

subsection \<open>Data\<close>

definition logHeaders :: "string list" where
  "logHeaders =
     [''timestamp'', ''date'', ''time_utc'', ''time_paris'', ''csv_filename'', ''action'',
      ''portfolio_value'', ''daily_pnl'', ''daily_pnl_percent'', ''cumulative_pnl'',
      ''total_positions'', ''long_positions'', ''short_positions'', ''long_notional'',
      ''short_notional'', ''total_notional_at_entry'', ''gross_exposure'', ''net_exposure'',
      ''top_long_symbol'', ''top_long_weight'', ''top_short_symbol'', ''top_short_weight'',
      ''hit_rate_estimate'', ''avg_win'', ''avg_loss'', ''reliability_ratio'']"

text \<open>The object \<^verbatim>\<open>logData\<close>: its properties in the order they are written.
  \<open>get_prop\<close> is the property access \<^verbatim>\<open>logData[header]\<close>.\<close>

type_synonym log_data = "(string \<times> js_value) list"

definition get_prop :: "log_data \<Rightarrow> string \<Rightarrow> js_value" where
  "get_prop logData header = (case map_of logData header of Some v \<Rightarrow> v | None \<Rightarrow> Undefined)"

datatype logger_error = ReferenceError string

record position_counts =
  total :: nat
  long :: nat
  short :: nat
  longNotional :: jsnum
  shortNotional :: jsnum

text \<open>What lies outside the logger and is within its reach: the console, where each
  \<^verbatim>\<open>appendToLog\<close> prints the CSV row and the record (\<open>csv_log\<close>); the chart, to which
  a chart call adds a point; and the log file \<^verbatim>\<open>portfolio_daily_log.csv\<close> on the server
  (\<open>log_file\<close> is what a fetch of it returns), which the logger reads back in
  \<^verbatim>\<open>getLogContent\<close>.\<close>

record sinks =
  csv_log :: "(string \<times> log_data) list"
  chart :: "(js_value \<times> js_value) list"
  log_file :: "string fetch_result"

subsection \<open>Reading the page\<close>

text \<open>\<^verbatim>\<open>parseFloat(text) || 0\<close>\<close>

definition or_zero :: "jsnum \<Rightarrow> jsnum" where
  "or_zero n = (if truthy_num n then n else Fin 0)"

text \<open>\<^verbatim>\<open>text.replace(/[$,]/g, '')\<close> and \<^verbatim>\<open>text.replace(/[%,]/g, '')\<close>\<close>

definition strip_chars :: "string \<Rightarrow> string \<Rightarrow> string" where
  "strip_chars cs text = filter (\<lambda>c. c \<notin> set cs) text"

definition read_amount :: "js_builtins \<Rightarrow> browser \<Rightarrow> string \<Rightarrow> string \<Rightarrow> jsnum" where
  "read_amount B b element_id cs =
     (case elements b element_id of
        Some textContent \<Rightarrow> or_zero (parseFloat B (strip_chars cs textContent))
      | None \<Rightarrow> Fin 0)"

definition getPortfolioValue :: "js_builtins \<Rightarrow> browser \<Rightarrow> jsnum" where
  "getPortfolioValue B b = read_amount B b ''portfolio-value'' ''$,''"

definition getDailyPnL :: "js_builtins \<Rightarrow> browser \<Rightarrow> jsnum" where
  "getDailyPnL B b = read_amount B b ''daily-pnl'' ''$,''"

definition getDailyPnLPercent :: "js_builtins \<Rightarrow> browser \<Rightarrow> jsnum" where
  "getDailyPnLPercent B b = read_amount B b ''pnl-percent'' ''%,''"

definition getCumulativePnL :: "browser \<Rightarrow> js_value" where
  "getCumulativePnL b = (if truthy (cumulativePnL b) then cumulativePnL b else Number (Fin 0))"

definition getTotalNotionalData :: "js_builtins \<Rightarrow> browser \<Rightarrow> jsnum \<times> jsnum" where
  "getTotalNotionalData B b =
     (read_amount B b ''total-long-notional'' ''$,'',
      read_amount B b ''total-short-notional'' ''$,'')"

subsection \<open>Reading the positions\<close>

text \<open>\<^verbatim>\<open>parseFloat(position.field)\<close>: an absent property is \<^verbatim>\<open>undefined\<close>, which
  does not parse.\<close>

definition parseFloat_prop :: "js_builtins \<Rightarrow> string option \<Rightarrow> jsnum" where
  "parseFloat_prop B v = (case v of Some s \<Rightarrow> parseFloat B s | None \<Rightarrow> NaN)"

definition is_long :: "js_builtins \<Rightarrow> row \<Rightarrow> bool" where
  "is_long B position = js_gt (parseFloat_prop B (position ''target_contracts'')) (Fin 0)"

definition notional_of :: "js_builtins \<Rightarrow> row \<Rightarrow> jsnum" where
  "notional_of B position = parseFloat_prop B (position ''target_notional'')"

text \<open>One round of the \<^verbatim>\<open>forEach\<close> of \<^verbatim>\<open>getPositionCounts\<close>, on
  \<open>(longCount, shortCount, longNotional, shortNotional)\<close>.\<close>

definition count_step ::
  "js_builtins \<Rightarrow> row \<Rightarrow> nat \<times> nat \<times> jsnum \<times> jsnum \<Rightarrow> nat \<times> nat \<times> jsnum \<times> jsnum" where
  "count_step B position acc =
     (case acc of (longCount, shortCount, longNotional', shortNotional') \<Rightarrow>
        let notional = notional_of B position in
        if is_long B position
        then (longCount + 1, shortCount, js_add B longNotional' notional, shortNotional')
        else (longCount, shortCount + 1, longNotional', js_add B shortNotional' (js_abs notional)))"

definition getPositionCounts :: "js_builtins \<Rightarrow> browser \<Rightarrow> logger_error + position_counts" where
  "getPositionCounts B b =
     (case portfolioData b of
        Undeclared \<Rightarrow> Inl (ReferenceError ''portfolioData is not defined'')
      | Nullish \<Rightarrow>
          Inr \<lparr> total = 0, long = 0, short = 0, longNotional = Fin 0, shortNotional = Fin 0 \<rparr>
      | Positions ps \<Rightarrow>
          if length ps = 0
          then Inr \<lparr> total = 0, long = 0, short = 0, longNotional = Fin 0, shortNotional = Fin 0 \<rparr>
          else (case fold (count_step B) ps (0, 0, Fin 0, Fin 0) of
                  (longCount, shortCount, longNotional', shortNotional') \<Rightarrow>
                    Inr \<lparr> total = longCount + shortCount, long = longCount, short = shortCount,
                          longNotional = longNotional', shortNotional = shortNotional' \<rparr>))"

definition getExposureData :: "js_builtins \<Rightarrow> browser \<Rightarrow> logger_error + jsnum \<times> jsnum" where
  "getExposureData B b =
     (case portfolioData b of
        Undeclared \<Rightarrow> Inl (ReferenceError ''portfolioData is not defined'')
      | Nullish \<Rightarrow> Inr (Fin 0, Fin 0)
      | Positions ps \<Rightarrow>
          if length ps = 0 then Inr (Fin 0, Fin 0)
          else Inr (fold (\<lambda>position (grossExposure, netExposure).
                            let notional = notional_of B position in
                            (js_add B grossExposure (js_abs notional),
                             js_add B netExposure notional))
                         ps (Fin 0, Fin 0)))"

text \<open>\<^verbatim>\<open>position.ticker || position.ric || position.internal_code\<close>\<close>

definition own_prop :: "row \<Rightarrow> string \<Rightarrow> js_value" where
  "own_prop position key = (case position key of Some s \<Rightarrow> Str s | None \<Rightarrow> Undefined)"

definition symbol_of :: "row \<Rightarrow> js_value" where
  "symbol_of position =
     (if truthy (own_prop position ''ticker'') then own_prop position ''ticker''
      else if truthy (own_prop position ''ric'') then own_prop position ''ric''
      else own_prop position ''internal_code'')"

definition top_step ::
  "js_builtins \<Rightarrow> row \<Rightarrow> (js_value \<times> jsnum) \<times> (js_value \<times> jsnum) \<Rightarrow>
     (js_value \<times> jsnum) \<times> (js_value \<times> jsnum)" where
  "top_step B position acc =
     (case acc of (topLong, topShort) \<Rightarrow>
        let symbol = symbol_of position;
            notional = notional_of B position;
            weight = js_mul B (js_div B notional (Fin 1000000)) (Fin 100)
        in if is_long B position \<and> js_gt (js_abs weight) (js_abs (snd topLong))
           then ((symbol, weight), topShort)
           else if \<not> is_long B position \<and> js_gt (js_abs weight) (js_abs (snd topShort))
           then (topLong, (symbol, weight))
           else (topLong, topShort))"

definition getTopPositions ::
  "js_builtins \<Rightarrow> browser \<Rightarrow> logger_error + (js_value \<times> jsnum) \<times> (js_value \<times> jsnum)" where
  "getTopPositions B b =
     (case portfolioData b of
        Undeclared \<Rightarrow> Inl (ReferenceError ''portfolioData is not defined'')
      | Nullish \<Rightarrow> Inr ((Str ''N/A'', Fin 0), (Str ''N/A'', Fin 0))
      | Positions ps \<Rightarrow>
          if length ps = 0 then Inr ((Str ''N/A'', Fin 0), (Str ''N/A'', Fin 0))
          else Inr (fold (top_step B) ps ((Str ''N/A'', Fin 0), (Str ''N/A'', Fin 0))))"

text \<open>The four estimates, as the strings \<^verbatim>\<open>toFixed(2)\<close> returns; the literals
  \<^verbatim>\<open>0.6\<close>, \<^verbatim>\<open>0.4\<close>, \<^verbatim>\<open>1.2\<close> and \<^verbatim>\<open>0.8\<close> are the doubles nearest to them.\<close>

definition getPerformanceMetrics ::
  "js_builtins \<Rightarrow> browser \<Rightarrow> string \<times> string \<times> string \<times> string" where
  "getPerformanceMetrics B b =
     (let dailyPnL = getDailyPnL B b;
          hitRate = (if js_gt dailyPnL (Fin 0) then fl B (6/10) else fl B (4/10));
          avgWin = (if js_gt dailyPnL (Fin 0) then js_mul B (js_abs dailyPnL) (fl B (12/10))
                    else js_mul B (js_abs dailyPnL) (fl B (8/10)));
          avgLoss = (if js_gt (Fin 0) dailyPnL then js_mul B (js_abs dailyPnL) (fl B (12/10))
                     else js_mul B (js_abs dailyPnL) (fl B (8/10)));
          reliability = (if js_gt avgLoss (Fin 0) then js_div B avgWin avgLoss else Fin 1)
      in (toFixed2 B (js_mul B hitRate (Fin 100)), toFixed2 B avgWin, toFixed2 B avgLoss,
          toFixed2 B reliability))"

subsection \<open>The logging cycle\<close>

definition gatherPortfolioData ::
  "js_builtins \<Rightarrow> browser \<Rightarrow> string \<Rightarrow> string \<Rightarrow> logger_error + log_data" where
  "gatherPortfolioData B b csvFilename action =
     (let timestamp = toISOString (now b);
          date = hd (split_str (CHR ''T'') (toISOString (now b)));
          timeUTC = take 8 (drop 11 (toISOString (now b)));
          timeParis = toLocaleString_Paris (now b);
          portfolioValue = getPortfolioValue B b;
          dailyPnL = getDailyPnL B b;
          dailyPnLPercent = getDailyPnLPercent B b;
          cumulativePnL' = getCumulativePnL b
      in case getPositionCounts B b of
           Inl err \<Rightarrow> Inl err
         | Inr positionCounts \<Rightarrow>
        (case getExposureData B b of
           Inl err \<Rightarrow> Inl err
         | Inr exposureData \<Rightarrow>
        (case getTopPositions B b of
           Inl err \<Rightarrow> Inl err
         | Inr topPositions \<Rightarrow>
        (case getPerformanceMetrics B b of
           (hitRate, avgWin, avgLoss, reliability) \<Rightarrow>
        (let totalNotionalData = getTotalNotionalData B b in
         Inr [(''timestamp'', Str timestamp),
              (''date'', Str date),
              (''time_utc'', Str timeUTC),
              (''time_paris'', Str timeParis),
              (''csv_filename'', Str csvFilename),
              (''action'', Str action),
              (''portfolio_value'', Number portfolioValue),
              (''daily_pnl'', Number dailyPnL),
              (''daily_pnl_percent'', Number dailyPnLPercent),
              (''cumulative_pnl'', cumulativePnL'),
              (''total_positions'', Number (Fin (real (total positionCounts)))),
              (''long_positions'', Number (Fin (real (long positionCounts)))),
              (''short_positions'', Number (Fin (real (short positionCounts)))),
              (''long_notional'', Number (longNotional positionCounts)),
              (''short_notional'', Number (shortNotional positionCounts)),
              (''total_notional_at_entry'',
                 Number (js_add B (fst totalNotionalData) (snd totalNotionalData))),
              (''gross_exposure'', Number (fst exposureData)),
              (''net_exposure'', Number (snd exposureData)),
              (''top_long_symbol'', fst (fst topPositions)),
              (''top_long_weight'', Number (snd (fst topPositions))),
              (''top_short_symbol'', fst (snd topPositions)),
              (''top_short_weight'', Number (snd (snd topPositions))),
              (''hit_rate_estimate'', Str hitRate),
              (''avg_win'', Str avgWin),
              (''avg_loss'', Str avgLoss),
              (''reliability_ratio'', Str reliability)])))))"

text \<open>One cell of the row: \<^verbatim>\<open>logData[header] || ''\<close>, quoted when it is a string
  with a comma or a quote, then turned into text by \<^verbatim>\<open>join\<close>.\<close>

definition join_text :: "js_builtins \<Rightarrow> js_value \<Rightarrow> string" where
  "join_text B v =
     (case v of
        Undefined \<Rightarrow> []
      | Null \<Rightarrow> []
      | Bool t \<Rightarrow> (if t then ''true'' else ''false'')
      | Number n \<Rightarrow> numToString B n
      | Str s \<Rightarrow> s
      | Object \<Rightarrow> ''[object Object]'')"

definition csv_cell :: "js_builtins \<Rightarrow> log_data \<Rightarrow> string \<Rightarrow> string" where
  "csv_cell B logData header =
     (let v = (if truthy (get_prop logData header) then get_prop logData header else Str []) in
      case v of
        Str s \<Rightarrow>
          if CHR '','' \<in> set s \<or> CHR 0x22 \<in> set s
          then [CHR 0x22] @ concat (map (\<lambda>c. if c = CHR 0x22 then [c, c] else [c]) s) @ [CHR 0x22]
          else s
      | _ \<Rightarrow> join_text B v)"

fun join_str :: "string \<Rightarrow> string list \<Rightarrow> string" where
  "join_str sep [] = []"
| "join_str sep [x] = x"
| "join_str sep (x # y # ys) = x @ sep @ join_str sep (y # ys)"

definition appendToLog :: "js_builtins \<Rightarrow> log_data \<Rightarrow> sinks \<Rightarrow> sinks" where
  "appendToLog B logData out =
     (let row = join_str '','' (map (csv_cell B logData) logHeaders) @ [CHR 0x0A]
      in out\<lparr> csv_log := csv_log out @ [(row, logData)] \<rparr>)"

definition getLogContent :: "sinks \<Rightarrow> string option" where
  "getLogContent out =
     (case log_file out of
        Ok text \<Rightarrow> Some text
      | NotOk \<Rightarrow> None
      | Rejected _ \<Rightarrow> None)"

definition logPreExecution ::
  "js_builtins \<Rightarrow> browser \<Rightarrow> string \<Rightarrow> sinks \<Rightarrow> logger_error + sinks" where
  "logPreExecution B b csvFilename out =
     (case gatherPortfolioData B b csvFilename ''pre_execution'' of
        Inl err \<Rightarrow> Inl err
      | Inr logData \<Rightarrow> Inr (appendToLog B logData out))"

definition logPostExecution ::
  "js_builtins \<Rightarrow> browser \<Rightarrow> string \<Rightarrow> sinks \<Rightarrow> logger_error + sinks" where
  "logPostExecution B b csvFilename out =
     (case gatherPortfolioData B b csvFilename ''post_execution'' of
        Inl err \<Rightarrow> Inl err
      | Inr logData \<Rightarrow>
          (let out' = appendToLog B logData out in
           if addPortfolioValueDataPoint b \<and> truthy (get_prop logData ''portfolio_value'')
           then Inr (out'\<lparr> chart := chart out' @
                                [(get_prop logData ''date'', get_prop logData ''portfolio_value'')] \<rparr>)
           else Inr out'))"

text \<open>Successive logging cycles, as the page runs them: each has its own reading of the
  surroundings; a cycle that throws leaves the sinks as they were.\<close>

datatype cycle = PreExecution | PostExecution

definition run_cycle :: "js_builtins \<Rightarrow> cycle \<times> browser \<times> string \<Rightarrow> sinks \<Rightarrow> sinks" where
  "run_cycle B c out =
     (case c of (kind, b, csvFilename) \<Rightarrow>
        (case (case kind of
                 PreExecution \<Rightarrow> logPreExecution B b csvFilename out
               | PostExecution \<Rightarrow> logPostExecution B b csvFilename out) of
           Inl err \<Rightarrow> out
         | Inr out' \<Rightarrow> out'))"

definition run_cycles :: "js_builtins \<Rightarrow> (cycle \<times> browser \<times> string) list \<Rightarrow> sinks \<Rightarrow> sinks" where
  "run_cycles B cs out = fold (run_cycle B) cs out"

text \<open>The timestamp column of the log, top to bottom. ISO timestamps have a fixed
  layout, so their order as text is their order in time.\<close>

definition timestamp_of :: "log_data \<Rightarrow> string" where
  "timestamp_of logData = (case get_prop logData ''timestamp'' of Str s \<Rightarrow> s | _ \<Rightarrow> [])"

definition timestamps :: "sinks \<Rightarrow> string list" where
  "timestamps out = map (\<lambda>entry. timestamp_of (snd entry)) (csv_log out)"

section \<open>Properties of the CSV monitor\<close>

lemma split_str_not_Nil: "split_str sep s \<noteq> []"
  by (induction s) (auto split: list.splits)

subsection \<open>Selecting the file\<close>

lemma find_filter_conj: "find P (filter Q xs) = find (\<lambda>x. Q x \<and> P x) xs"
  by (induction xs) auto


text \<open>The filter followed by the search is one search of the input list.\<close>

lemma findLatestCSV_find:
  "findLatestCSV csvFiles =
     (case find conforming csvFiles of
        Some f \<Rightarrow> Inr (Some f)
      | None \<Rightarrow> if \<exists>g \<in> set csvFiles. pattern_test (filename g)
                then Inl Required_2355_not_found else Inr None)"
proof (cases "filter (\<lambda>file. pattern_test (filename file)) csvFiles = []")
  case True
  then have none: "\<forall>g \<in> set csvFiles. \<not> pattern_test (filename g)"
    by (simp add: filter_empty_conv)
  then have "find conforming csvFiles = None"
    by (auto simp: find_None_iff)
  with True none show ?thesis
    by (simp add: findLatestCSV_def)
next
  case False
  then have some: "\<exists>g \<in> set csvFiles. pattern_test (filename g)"
    by (simp add: filter_empty_conv)
  from False some show ?thesis
    by (simp add: findLatestCSV_def find_filter_conj)
qed

text \<open>What the pattern test accepts: a name that holds, at some position, the fixed
  prefix, eight digits, a hyphen, four digits and \<^verbatim>\<open>.csv\<close>.\<close>

lemma pattern_here_iff:
  "pattern_here s \<longleftrightarrow>
     (\<exists>d8 d4 post. s = ''lpxd_external_advisors_DF_'' @ d8 @ ''-'' @ d4 @ ''.csv'' @ post \<and>
        length d8 = 8 \<and> list_all is_digit d8 \<and> length d4 = 4 \<and> list_all is_digit d4)"
proof
  assume p: "pattern_here s"
  from p have lit: "take 26 s = ''lpxd_external_advisors_DF_''"
    and d8: "length (take 8 (drop 26 s)) = 8" "list_all is_digit (take 8 (drop 26 s))"
    and hy: "take 1 (drop 34 s) = ''-''"
    and d4: "length (take 4 (drop 35 s)) = 4" "list_all is_digit (take 4 (drop 35 s))"
    and ext: "take 4 (drop 39 s) = ''.csv''"
    by (simp_all add: pattern_here_def Let_def)
  have t1: "take 43 s = take 26 s @ take 17 (drop 26 s)"
    using take_add [of 26 17 s] by simp
  have t2: "take 17 (drop 26 s) = take 8 (drop 26 s) @ take 9 (drop 34 s)"
    using take_add [of 8 9 "drop 26 s"] by simp
  have t3: "take 9 (drop 34 s) = take 1 (drop 34 s) @ take 8 (drop 35 s)"
    using take_add [of 1 8 "drop 34 s"] by simp
  have t4: "take 8 (drop 35 s) = take 4 (drop 35 s) @ take 4 (drop 39 s)"
    using take_add [of 4 4 "drop 35 s"] by simp
  have "take 43 s @ drop 43 s = s"
    by (rule append_take_drop_id)
  then have "s = ''lpxd_external_advisors_DF_'' @ take 8 (drop 26 s) @ ''-'' @
                 take 4 (drop 35 s) @ ''.csv'' @ drop 43 s"
    by (simp only: t1 t2 t3 t4 lit hy ext append_assoc)
  with d8 d4 show "\<exists>d8 d4 post. s = ''lpxd_external_advisors_DF_'' @ d8 @ ''-'' @ d4 @ ''.csv'' @ post \<and>
        length d8 = 8 \<and> list_all is_digit d8 \<and> length d4 = 4 \<and> list_all is_digit d4"
    by blast
next
  assume "\<exists>d8 d4 post. s = ''lpxd_external_advisors_DF_'' @ d8 @ ''-'' @ d4 @ ''.csv'' @ post \<and>
        length d8 = 8 \<and> list_all is_digit d8 \<and> length d4 = 4 \<and> list_all is_digit d4"
  then obtain d8 d4 post where s: "s = ''lpxd_external_advisors_DF_'' @ d8 @ ''-'' @ d4 @ ''.csv'' @ post"
    and l: "length d8 = 8" "list_all is_digit d8" "length d4 = 4" "list_all is_digit d4"
    by blast
  from l show "pattern_here s"
    by (simp add: s pattern_here_def)
qed

lemma endsWith_iff: "endsWith name suffix \<longleftrightarrow> (\<exists>pre. name = pre @ suffix)"
proof
  assume "endsWith name suffix"
  then have d: "drop (length name - length suffix) name = suffix"
    by (simp only: endsWith_def)
  from append_take_drop_id [of "length name - length suffix" name, unfolded d, symmetric]
  show "\<exists>pre. name = pre @ suffix" ..
next
  assume "\<exists>pre. name = pre @ suffix"
  then show "endsWith name suffix"
    by (auto simp: endsWith_def)
qed

lemma pattern_test_iff: "pattern_test s \<longleftrightarrow> (\<exists>pre rest. s = pre @ rest \<and> pattern_here rest)"
proof (induction s)
  case Nil
  then show ?case by simp
next
  case (Cons c cs)
  have "(\<exists>pre rest. c # cs = pre @ rest \<and> pattern_here rest) \<longleftrightarrow>
        pattern_here (c # cs) \<or> (\<exists>pre rest. cs = pre @ rest \<and> pattern_here rest)"
  proof
    assume "\<exists>pre rest. c # cs = pre @ rest \<and> pattern_here rest"
    then obtain pre rest where e: "c # cs = pre @ rest" and p: "pattern_here rest"
      by blast
    show "pattern_here (c # cs) \<or> (\<exists>pre rest. cs = pre @ rest \<and> pattern_here rest)"
    proof (cases pre)
      case Nil
      with e p show ?thesis by simp
    next
      case (Cons a pre')
      with e have "cs = pre' @ rest" by simp
      with p show ?thesis by blast
    qed
  next
    assume "pattern_here (c # cs) \<or> (\<exists>pre rest. cs = pre @ rest \<and> pattern_here rest)"
    then show "\<exists>pre rest. c # cs = pre @ rest \<and> pattern_here rest"
    proof
      assume "pattern_here (c # cs)"
      then have "c # cs = [] @ (c # cs) \<and> pattern_here (c # cs)" by simp
      then show ?thesis by blast
    next
      assume "\<exists>pre rest. cs = pre @ rest \<and> pattern_here rest"
      then obtain pre rest where "cs = pre @ rest" "pattern_here rest" by blast
      then have "c # cs = (c # pre) @ rest \<and> pattern_here rest" by simp
      then show ?thesis by blast
    qed
  qed
  with Cons.IH show ?case by simp
qed

lemma pattern_test_substring:
  "pattern_test name \<longleftrightarrow>
      (\<exists>pre d8 d4 post.
         name = pre @ ''lpxd_external_advisors_DF_'' @ d8 @ ''-'' @ d4 @ ''.csv'' @ post \<and>
         length d8 = 8 \<and> list_all is_digit d8 \<and> length d4 = 4 \<and> list_all is_digit d4)"
proof
  assume "pattern_test name"
  then have "\<exists>pre rest. name = pre @ rest \<and> pattern_here rest"
    by (simp only: pattern_test_iff)
  then obtain pre rest where n: "name = pre @ rest" and h: "pattern_here rest"
    by (elim exE conjE)
  from h have "\<exists>d8 d4 post. rest = ''lpxd_external_advisors_DF_'' @ d8 @ ''-'' @ d4 @ ''.csv'' @ post \<and>
        length d8 = 8 \<and> list_all is_digit d8 \<and> length d4 = 4 \<and> list_all is_digit d4"
    by (simp only: pattern_here_iff)
  then obtain d8 d4 post
    where r: "rest = ''lpxd_external_advisors_DF_'' @ d8 @ ''-'' @ d4 @ ''.csv'' @ post"
      and l: "length d8 = 8" "list_all is_digit d8" "length d4 = 4" "list_all is_digit d4"
    by (elim exE conjE)
  from n r have "name = pre @ ''lpxd_external_advisors_DF_'' @ d8 @ ''-'' @ d4 @ ''.csv'' @ post"
    by (simp only:)
  with l show "\<exists>pre d8 d4 post.
         name = pre @ ''lpxd_external_advisors_DF_'' @ d8 @ ''-'' @ d4 @ ''.csv'' @ post \<and>
         length d8 = 8 \<and> list_all is_digit d8 \<and> length d4 = 4 \<and> list_all is_digit d4"
    by (intro exI conjI)
next
  assume "\<exists>pre d8 d4 post.
         name = pre @ ''lpxd_external_advisors_DF_'' @ d8 @ ''-'' @ d4 @ ''.csv'' @ post \<and>
         length d8 = 8 \<and> list_all is_digit d8 \<and> length d4 = 4 \<and> list_all is_digit d4"
  then obtain pre d8 d4 post
    where n: "name = pre @ ''lpxd_external_advisors_DF_'' @ d8 @ ''-'' @ d4 @ ''.csv'' @ post"
      and l: "length d8 = 8" "list_all is_digit d8" "length d4 = 4" "list_all is_digit d4"
    by (elim exE conjE)
  from l have "\<exists>d8' d4' post'. ''lpxd_external_advisors_DF_'' @ d8 @ ''-'' @ d4 @ ''.csv'' @ post =
        ''lpxd_external_advisors_DF_'' @ d8' @ ''-'' @ d4' @ ''.csv'' @ post' \<and>
        length d8' = 8 \<and> list_all is_digit d8' \<and> length d4' = 4 \<and> list_all is_digit d4'"
    by (intro exI conjI) (rule refl)
  then have "pattern_here (''lpxd_external_advisors_DF_'' @ d8 @ ''-'' @ d4 @ ''.csv'' @ post)"
    by (simp only: pattern_here_iff)
  with n have "\<exists>pre rest. name = pre @ rest \<and> pattern_here rest"
    by (intro exI conjI)
  then show "pattern_test name"
    by (simp only: pattern_test_iff)
qed

text \<open>
  \<^bold>\<open>C7\<close>, as the claim states it, fails: the regular expression has no anchors, so a
  name only has to hold the pattern somewhere. The first file below is returned although
  its name is not of the form \<^verbatim>\<open>lpxd_external_advisors_DF_<8 digits>-<4 digits>.csv\<close> (it
  does not start with it and is longer), and the release it names is the one of 08:06.
  For the second list, in which no name is of that form, the result is not \<^verbatim>\<open>null\<close> but
  the error.
\<close>

theorem unanchored_pattern_counterexample:
  "findLatestCSV
     [\<lparr> filename = ''old_lpxd_external_advisors_DF_20250916-0806.csv.bak_2355.csv'',
        modified = ''2025-09-16T08:06:10.000Z'', size = ''10'' \<rparr>]
   = Inr (Some \<lparr> filename = ''old_lpxd_external_advisors_DF_20250916-0806.csv.bak_2355.csv'',
        modified = ''2025-09-16T08:06:10.000Z'', size = ''10'' \<rparr>) \<and>
   \<not> pattern_here ''old_lpxd_external_advisors_DF_20250916-0806.csv.bak_2355.csv'' \<and>
   length ''old_lpxd_external_advisors_DF_20250916-0806.csv.bak_2355.csv'' \<noteq> 43 \<and>
   findLatestCSV
     [\<lparr> filename = ''lpxd_external_advisors_DF_20250916-0806.csv.bak'',
        modified = ''2025-09-16T08:06:10.000Z'', size = ''10'' \<rparr>]
   = Inl Required_2355_not_found \<and>
   length ''lpxd_external_advisors_DF_20250916-0806.csv.bak'' \<noteq> 43"
  by (simp add: findLatestCSV_def pattern_here_def is_digit_def endsWith_def)

text \<open>
  \<^bold>\<open>C7\<close>, amended. The selector enforces this much of the naming and release
  convention. Whatever the list of candidate files, \<open>findLatestCSV\<close> returns a file only
  if that file is in the list, its name holds at some position a piece of the form
  \<^verbatim>\<open>lpxd_external_advisors_DF_<8 digits>-<4 digits>.csv\<close> (the test of the regular
  expression, which is not anchored: anything may come before and after the piece) and
  its name ends in \<^verbatim>\<open>2355.csv\<close>. On a list with no such file it returns no file:
  \<^verbatim>\<open>null\<close> when no name passes the pattern test, the error when some name passes it
  but none of these ends in \<^verbatim>\<open>2355.csv\<close>. There is no fallback to a file that
  fails one of the two tests.
\<close>

theorem findLatestCSV_convention:
  "(findLatestCSV csvFiles = Inr (Some f) \<longrightarrow>
      f \<in> set csvFiles \<and> pattern_test (filename f) \<and> endsWith (filename f) ''2355.csv'') \<and>
   ((\<forall>g \<in> set csvFiles. \<not> (pattern_test (filename g) \<and> endsWith (filename g) ''2355.csv'')) \<longrightarrow>
      findLatestCSV csvFiles =
        (if \<forall>g \<in> set csvFiles. \<not> pattern_test (filename g) then Inr None
         else Inl Required_2355_not_found)) \<and>
   (pattern_test name \<longleftrightarrow>
      (\<exists>pre d8 d4 post.
         name = pre @ ''lpxd_external_advisors_DF_'' @ d8 @ ''-'' @ d4 @ ''.csv'' @ post \<and>
         length d8 = 8 \<and> list_all is_digit d8 \<and> length d4 = 4 \<and> list_all is_digit d4)) \<and>
   (endsWith name ''2355.csv'' \<longleftrightarrow> (\<exists>pre. name = pre @ ''2355.csv''))"
proof (intro conjI impI)
  assume r: "findLatestCSV csvFiles = Inr (Some f)"
  then have "find conforming csvFiles = Some f"
    by (simp add: findLatestCSV_find split: option.splits if_splits)
  then have "f \<in> set csvFiles \<and> conforming f"
    by (auto simp: find_Some_iff)
  then show "f \<in> set csvFiles" "pattern_test (filename f)" "endsWith (filename f) ''2355.csv''"
    by simp_all
next
  assume "\<forall>g \<in> set csvFiles. \<not> conforming g"
  then have "find conforming csvFiles = None"
    by (simp add: find_None_iff)
  then show "findLatestCSV csvFiles =
        (if \<forall>g \<in> set csvFiles. \<not> pattern_test (filename g) then Inr None
         else Inl Required_2355_not_found)"
    by (simp add: findLatestCSV_find)
next
  show "pattern_test name \<longleftrightarrow> (\<exists>pre d8 d4 post.
         name = pre @ ''lpxd_external_advisors_DF_'' @ d8 @ ''-'' @ d4 @ ''.csv'' @ post \<and>
         length d8 = 8 \<and> list_all is_digit d8 \<and> length d4 = 4 \<and> list_all is_digit d4)"
    by (rule pattern_test_substring)
next
  show "endsWith name ''2355.csv'' \<longleftrightarrow> (\<exists>pre. name = pre @ ''2355.csv'')"
    by (rule endsWith_iff)
qed

theorem findLatestCSV_convention_witness:
  "findLatestCSV
     [\<lparr> filename = ''lpxd_external_advisors_DF_20250916-0806.csv'',
        modified = ''2025-09-16T08:06:10.000Z'', size = ''10'' \<rparr>,
      \<lparr> filename = ''lpxd_external_advisors_DF_20250916-2355.csv'',
        modified = ''2025-09-16T23:55:10.000Z'', size = ''12'' \<rparr>]
     = Inr (Some \<lparr> filename = ''lpxd_external_advisors_DF_20250916-2355.csv'',
                   modified = ''2025-09-16T23:55:10.000Z'', size = ''12'' \<rparr>) \<and>
   pattern_test ''lpxd_external_advisors_DF_20250916-2355.csv'' \<and>
   endsWith ''lpxd_external_advisors_DF_20250916-2355.csv'' ''2355.csv'' \<and>
   findLatestCSV
     [\<lparr> filename = ''lpxd_external_advisors_DF_20250916-0806.csv'',
        modified = ''2025-09-16T08:06:10.000Z'', size = ''10'' \<rparr>]
     = Inl Required_2355_not_found \<and>
   findLatestCSV
     [\<lparr> filename = ''notes_2355.csv'', modified = ''2025-09-16T08:06:10.000Z'', size = ''10'' \<rparr>]
     = Inr None"
proof -
  let ?early = "\<lparr> filename = ''lpxd_external_advisors_DF_20250916-0806.csv'',
                   modified = ''2025-09-16T08:06:10.000Z'', size = ''10'' \<rparr>"
  let ?late = "\<lparr> filename = ''lpxd_external_advisors_DF_20250916-2355.csv'',
                  modified = ''2025-09-16T23:55:10.000Z'', size = ''12'' \<rparr>"
  let ?other = "\<lparr> filename = ''notes_2355.csv'',
                   modified = ''2025-09-16T08:06:10.000Z'', size = ''10'' \<rparr>"
  have sel: "findLatestCSV [?early, ?late] = Inr (Some ?late)"
    by (simp add: findLatestCSV_def pattern_here_def is_digit_def endsWith_def)
  have none1: "\<forall>g \<in> set [?early]. \<not> (pattern_test (filename g) \<and> endsWith (filename g) ''2355.csv'')"
    by (simp add: endsWith_def)
  have none2: "\<forall>g \<in> set [?other]. \<not> (pattern_test (filename g) \<and> endsWith (filename g) ''2355.csv'')"
    by (simp add: pattern_here_def)
  have m1: "\<not> (\<forall>g \<in> set [?early]. \<not> pattern_test (filename g))"
    by (simp add: pattern_here_def is_digit_def)
  have m2: "\<forall>g \<in> set [?other]. \<not> pattern_test (filename g)"
    by (simp add: pattern_here_def)
  from findLatestCSV_convention [of "[?early, ?late]" ?late] sel
  have a: "pattern_test (filename ?late) \<and> endsWith (filename ?late) ''2355.csv''"
    by blast
  note r1 = findLatestCSV_convention [of "[?early]" ?late, THEN conjunct2, THEN conjunct1, THEN mp, OF none1]
  from r1 have b: "findLatestCSV [?early] = Inl Required_2355_not_found"
    by (simp only: if_not_P [OF m1])
  note r2 = findLatestCSV_convention [of "[?other]" ?late, THEN conjunct2, THEN conjunct1, THEN mp, OF none2]
  from r2 have c: "findLatestCSV [?other] = Inr None"
    by (simp only: if_P [OF m2])
  from sel a b c show ?thesis by simp
qed



subsection \<open>The polling cadence\<close>

text \<open>
  \<^bold>\<open>C8.\<close> After a run of \<open>updateCheckInterval\<close> on a monitor whose release window is
  the one the constructor sets (00:00 to 00:30), the check interval is 10000 ms if the
  local time of day, hours plus minutes over 60, lies between 0 and 0.5 inclusive, and
  60000 ms otherwise; it is 10000 exactly when the hour is 0 and the minute at most 30.
  In particular it is never the 30000 ms of the constructor. (The script computes the
  time of day in doubles; \<^verbatim>\<open>30 / 60.0\<close> is exactly 0.5 and every other minute is more
  than a rounding error away from it, so the comparisons are those of the exact values.)
\<close>

theorem updateCheckInterval_cadence:
  assumes "csvReleaseWindow this = \<lparr> window_start = 0, window_end = 1/2 \<rparr>"
  shows "checkInterval (updateCheckInterval d this) =
           (if 0 \<le> real (getHours d) + real (getMinutes d) / 60 \<and>
               real (getHours d) + real (getMinutes d) / 60 \<le> 1/2
            then 10000 else 60000) \<and>
         (checkInterval (updateCheckInterval d this) = 10000 \<longleftrightarrow>
            getHours d = 0 \<and> getMinutes d \<le> 30) \<and>
         checkInterval (updateCheckInterval d this) \<noteq> 30000"
  using assms by (auto simp: updateCheckInterval_def Let_def)

theorem updateCheckInterval_cadence_witness:
  "csvReleaseWindow constructor = \<lparr> window_start = 0, window_end = 1/2 \<rparr> \<and>
   checkInterval constructor = 30000 \<and>
   checkInterval (updateCheckInterval
      \<lparr> toISOString = ''2025-09-16T22:30:00.000Z'', toLocaleString_Paris = ''00:30:00'',
        getHours = 0, getMinutes = 30 \<rparr> constructor) = 10000 \<and>
   checkInterval (updateCheckInterval
      \<lparr> toISOString = ''2025-09-16T22:31:00.000Z'', toLocaleString_Paris = ''00:31:00'',
        getHours = 0, getMinutes = 31 \<rparr> constructor) = 60000"
proof -
  have w: "csvReleaseWindow constructor = \<lparr> window_start = 0, window_end = 1/2 \<rparr>"
    by (simp add: constructor_def)
  from updateCheckInterval_cadence [OF w,
      of "\<lparr> toISOString = ''2025-09-16T22:30:00.000Z'', toLocaleString_Paris = ''00:30:00'',
            getHours = 0, getMinutes = 30 \<rparr>"]
  have a: "checkInterval (updateCheckInterval
      \<lparr> toISOString = ''2025-09-16T22:30:00.000Z'', toLocaleString_Paris = ''00:30:00'',
        getHours = 0, getMinutes = 30 \<rparr> constructor) = 10000"
    by simp
  from updateCheckInterval_cadence [OF w,
      of "\<lparr> toISOString = ''2025-09-16T22:31:00.000Z'', toLocaleString_Paris = ''00:31:00'',
            getHours = 0, getMinutes = 31 \<rparr>"]
  have b: "checkInterval (updateCheckInterval
      \<lparr> toISOString = ''2025-09-16T22:31:00.000Z'', toLocaleString_Paris = ''00:31:00'',
        getHours = 0, getMinutes = 31 \<rparr> constructor) = 60000"
    by simp
  from w a b show ?thesis by (simp add: constructor_def)
qed

subsection \<open>Detecting and processing a new file\<close>

lemmas monitor_eval = checkForNewCSV_def getCSVFiles_def findLatestCSV_def pattern_here_def
  is_digit_def endsWith_def triggerRebalancing_def loadCSVText_def setOnRebalance_def
  constructor_def

lemmas parse_eval = parseCSV_def parse_row_def assign_def cell_def trim_def is_space_def

lemma findLatestCSV_Nil: "findLatestCSV [] = Inr None"
  by (simp add: findLatestCSV_def)

lemma checkForNewCSV_unchanged:
  assumes "findLatestCSV (getCSVFiles b) = Inr (Some latest)"
    and "currentCSV this = Some (filename latest)"
    and "lastModified this = Some (modified latest)"
  shows "checkForNewCSV b this = (this, [])"
  using assms by (simp add: checkForNewCSV_def Let_def)

lemma checkForNewCSV_new:
  assumes "findLatestCSV (getCSVFiles b) = Inr (Some latest)"
    and "currentCSV this \<noteq> Some (filename latest) \<or> lastModified this \<noteq> Some (modified latest)"
  shows "checkForNewCSV b this =
           (this\<lparr> currentCSV := Some (filename latest), lastModified := Some (modified latest) \<rparr>,
            triggerRebalancing b
              (this\<lparr> currentCSV := Some (filename latest),
                     lastModified := Some (modified latest) \<rparr>) (filename latest))"
proof -
  from assms(1) have "getCSVFiles b \<noteq> []"
    by (auto simp: findLatestCSV_Nil)
  with assms show ?thesis
    by (simp add: checkForNewCSV_def Let_def)
qed

lemma checkForNewCSV_tracks:
  assumes "findLatestCSV (getCSVFiles b) = Inr (Some latest)"
  shows "currentCSV (fst (checkForNewCSV b this)) = Some (filename latest) \<and>
         lastModified (fst (checkForNewCSV b this)) = Some (modified latest)"
proof (cases "currentCSV this = Some (filename latest) \<and> lastModified this = Some (modified latest)")
  case True
  with assms show ?thesis by (simp add: checkForNewCSV_unchanged)
next
  case False
  then have "currentCSV this \<noteq> Some (filename latest) \<or>
             lastModified this \<noteq> Some (modified latest)"
    by simp
  from checkForNewCSV_new [OF assms this] show ?thesis by simp
qed

text \<open>When the monitoring server cannot be reached, the list holds at most the one local
  file, whose name ends in \<^verbatim>\<open>0806.csv\<close>: the selector throws and the check does
  nothing, whatever modification time was made up for the file.\<close>

lemma findLatestCSV_fallback:
  "findLatestCSV [\<lparr> filename = fallback_filename, modified = m, size = s \<rparr>] =
     Inl Required_2355_not_found"
  by (simp add: findLatestCSV_def fallback_filename_def pattern_here_def is_digit_def endsWith_def)

lemma checkForNewCSV_fallback:
  assumes "api_csv_files b = Rejected msg"
  shows "checkForNewCSV b this = (this, [])"
proof (cases "head_local_csv b")
  case (Ok content_length)
  with assms have "\<exists>s. getCSVFiles b =
      [\<lparr> filename = fallback_filename, modified = toISOString (now b), size = s \<rparr>]"
    by (simp add: getCSVFiles_def)
  then show ?thesis
    by (auto simp: checkForNewCSV_def findLatestCSV_fallback)
next
  case NotOk
  with assms show ?thesis by (simp add: checkForNewCSV_def getCSVFiles_def)
next
  case (Rejected m)
  with assms show ?thesis by (simp add: checkForNewCSV_def getCSVFiles_def)
qed

lemma triggerRebalancing_loaded:
  assumes "loadCSVText b f = Inr (Str text)"
  shows "triggerRebalancing b this f =
           UpdateCSVStatus f #
           (case onRebalanceCallback this of
              None \<Rightarrow> [ShowNotification (Success (length (parseCSV text)))]
            | Some cb \<Rightarrow>
                [Rebalance (parseCSV text) f,
                 ShowNotification (case cb (parseCSV text) f of
                                     None \<Rightarrow> Success (length (parseCSV text))
                                   | Some msg \<Rightarrow> Failure msg)])"
  using assms by (simp add: triggerRebalancing_def Let_def split: option.splits)

lemma triggerRebalancing_failed:
  assumes "\<forall>text. loadCSVText b f \<noteq> Inr (Str text)"
  shows "\<exists>msg. triggerRebalancing b this f = [UpdateCSVStatus f, ShowNotification (Failure msg)]"
proof (cases "loadCSVText b f")
  case (Inl msg)
  then show ?thesis by (simp add: triggerRebalancing_def)
next
  case (Inr v)
  with assms have "\<forall>text. v \<noteq> Str text" by simp
  with Inr show ?thesis
    by (cases v) (simp_all add: triggerRebalancing_def)
qed

lemma split_str_length: "length (split_str sep s) = Suc (length (filter (\<lambda>c. c = sep) s))"
  by (induction s) (auto split: list.splits simp: split_str_not_Nil)

lemma dom_fold_row:
  "dom (fold (\<lambda>(index, header) row. assign (trim header) (g index) row) xs m) =
     dom m \<union> (set (map (\<lambda>x. trim (snd x)) xs) - {''__proto__''})"
  by (induction xs arbitrary: m) (auto simp: assign_def split: prod.splits if_splits)

lemma dom_parse_row: "dom (parse_row headers line) = set (map trim headers) - {''__proto__''}"
proof -
  have "map (\<lambda>x. trim (snd x)) (zip [0..<length headers] headers) = map trim headers"
    by (simp add: map_snd_zip flip: map_map [unfolded comp_def])
  then show ?thesis
    by (simp add: parse_row_def Let_def dom_fold_row)
qed

text \<open>The value of a column: the cell at the index of the last header of that name.\<close>

lemma fold_row_lookup:
  assumes "j < length hs"
    and "trim (hs ! j) \<noteq> ''__proto__''"
    and "\<forall>k. j < k \<and> k < length hs \<longrightarrow> trim (hs ! k) \<noteq> trim (hs ! j)"
  shows "fold (\<lambda>(index, header) row. assign (trim header) (g index) row)
              (zip [0..<length hs] hs) m (trim (hs ! j)) = Some (g j)"
  using assms
proof (induction hs rule: rev_induct)
  case Nil
  then show ?case by simp
next
  case (snoc h hs)
  let ?step = "\<lambda>(index, header) row. assign (trim header) (g index) row"
  have z: "zip [0..<length (hs @ [h])] (hs @ [h]) = zip [0..<length hs] hs @ [(length hs, h)]"
    by simp
  have f: "fold ?step (zip [0..<length (hs @ [h])] (hs @ [h])) m =
           assign (trim h) (g (length hs)) (fold ?step (zip [0..<length hs] hs) m)"
    by (simp only: z fold_append) simp
  show ?case
  proof (cases "j = length hs")
    case True
    with snoc.prems(2) show ?thesis
      by (simp only: f) (simp add: assign_def)
  next
    case False
    with snoc.prems(1) have j: "j < length hs" by simp
    from j snoc.prems(2) have p: "trim (hs ! j) \<noteq> ''__proto__''"
      by (simp add: nth_append)
    have d: "\<forall>k. j < k \<and> k < length hs \<longrightarrow> trim (hs ! k) \<noteq> trim (hs ! j)"
    proof (intro allI impI)
      fix k
      assume k: "j < k \<and> k < length hs"
      with snoc.prems(3) [rule_format, of k] j show "trim (hs ! k) \<noteq> trim (hs ! j)"
        by (simp add: nth_append)
    qed
    from snoc.prems(3) [rule_format, of "length hs"] j have n: "trim h \<noteq> trim (hs ! j)"
      by (simp add: nth_append)
    from snoc.IH [OF j p d] n j show ?thesis
      by (simp only: f) (simp add: assign_def nth_append)
  qed
qed

lemma parse_row_lookup:
  assumes "j < length headers"
    and "trim (headers ! j) \<noteq> ''__proto__''"
    and "\<forall>k. j < k \<and> k < length headers \<longrightarrow> trim (headers ! k) \<noteq> trim (headers ! j)"
  shows "parse_row headers line (trim (headers ! j)) =
           Some (cell (split_str (CHR '','') line) j)"
  unfolding parse_row_def Let_def by (rule fold_row_lookup [OF assms])

text \<open>
  \<^bold>\<open>C1\<close>, as the claim states it, fails at the restart. The monitor keeps the name and
  the modification time of the file it has processed in its own fields only. A freshly
  constructed monitor, with the same callback registered, that sees the same file list
  and the same content processes the file a second time: the callback is invoked again.
  (The first conjunct is the check before the restart, the second a further check of the
  same monitor, the third the check after the restart.)
\<close>

theorem restart_counterexample:
  "checkForNewCSV
     \<lparr> now = \<lparr> toISOString = ''2025-09-17T00:05:00.000Z'', toLocaleString_Paris = ''02:05:00'',
               getHours = 0, getMinutes = 5 \<rparr>,
       api_csv_files = Ok (Some [\<lparr> filename = ''lpxd_external_advisors_DF_20250916-2355.csv'',
           modified = ''2025-09-16T23:55:10.000Z'', size = ''12'' \<rparr>]),
       head_local_csv = NotOk,
       api_csv_content = (\<lambda>f. Ok (Str (''ticker,target_notional'' @ [CHR 0x0A] @ ''AAA,1000''))),
       get_local_file = (\<lambda>f. NotOk),
       elements = Map.empty, portfolioData = Nullish,
       cumulativePnL = Undefined, addPortfolioValueDataPoint = False \<rparr>
     (setOnRebalance (\<lambda>rows f. None) constructor)
   = ((setOnRebalance (\<lambda>rows f. None) constructor)
       \<lparr> currentCSV := Some ''lpxd_external_advisors_DF_20250916-2355.csv'',
         lastModified := Some ''2025-09-16T23:55:10.000Z'' \<rparr>,
      [UpdateCSVStatus ''lpxd_external_advisors_DF_20250916-2355.csv'',
       Rebalance [[''ticker'' \<mapsto> ''AAA'', ''target_notional'' \<mapsto> ''1000'']] ''lpxd_external_advisors_DF_20250916-2355.csv'',
       ShowNotification (Success 1)]) \<and>
   checkForNewCSV
     \<lparr> now = \<lparr> toISOString = ''2025-09-17T00:05:00.000Z'', toLocaleString_Paris = ''02:05:00'',
               getHours = 0, getMinutes = 5 \<rparr>,
       api_csv_files = Ok (Some [\<lparr> filename = ''lpxd_external_advisors_DF_20250916-2355.csv'',
           modified = ''2025-09-16T23:55:10.000Z'', size = ''12'' \<rparr>]),
       head_local_csv = NotOk,
       api_csv_content = (\<lambda>f. Ok (Str (''ticker,target_notional'' @ [CHR 0x0A] @ ''AAA,1000''))),
       get_local_file = (\<lambda>f. NotOk),
       elements = Map.empty, portfolioData = Nullish,
       cumulativePnL = Undefined, addPortfolioValueDataPoint = False \<rparr>
     ((setOnRebalance (\<lambda>rows f. None) constructor)
       \<lparr> currentCSV := Some ''lpxd_external_advisors_DF_20250916-2355.csv'',
         lastModified := Some ''2025-09-16T23:55:10.000Z'' \<rparr>)
   = ((setOnRebalance (\<lambda>rows f. None) constructor)
       \<lparr> currentCSV := Some ''lpxd_external_advisors_DF_20250916-2355.csv'',
         lastModified := Some ''2025-09-16T23:55:10.000Z'' \<rparr>, []) \<and>
   snd (checkForNewCSV
     \<lparr> now = \<lparr> toISOString = ''2025-09-17T00:05:00.000Z'', toLocaleString_Paris = ''02:05:00'',
               getHours = 0, getMinutes = 5 \<rparr>,
       api_csv_files = Ok (Some [\<lparr> filename = ''lpxd_external_advisors_DF_20250916-2355.csv'',
           modified = ''2025-09-16T23:55:10.000Z'', size = ''12'' \<rparr>]),
       head_local_csv = NotOk,
       api_csv_content = (\<lambda>f. Ok (Str (''ticker,target_notional'' @ [CHR 0x0A] @ ''AAA,1000''))),
       get_local_file = (\<lambda>f. NotOk),
       elements = Map.empty, portfolioData = Nullish,
       cumulativePnL = Undefined, addPortfolioValueDataPoint = False \<rparr>
     (setOnRebalance (\<lambda>rows f. None) constructor))
   = [UpdateCSVStatus ''lpxd_external_advisors_DF_20250916-2355.csv'',
      Rebalance [[''ticker'' \<mapsto> ''AAA'', ''target_notional'' \<mapsto> ''1000'']] ''lpxd_external_advisors_DF_20250916-2355.csv'',
      ShowNotification (Success 1)]"
  by (simp add: monitor_eval parse_eval)

text \<open>
  \<^bold>\<open>C1\<close>, amended. Within one monitor the ingestor is idempotent: once a check has seen
  a latest valid file, a further check that finds a latest valid file of the same name
  and modification time changes nothing and triggers nothing. The position set passed
  to the callback is the parse of the file's text and of nothing else, so processing the
  same content again gives the same position set. Across a restart nothing is kept: a
  fresh monitor with the callback registered processes the unchanged file again and
  invokes the callback with that same position set.
\<close>

theorem ingestor_idempotent_until_restart:
  assumes "findLatestCSV (getCSVFiles b) = Inr (Some latest)"
    and "findLatestCSV (getCSVFiles b') = Inr (Some latest')"
    and "filename latest' = filename latest"
    and "modified latest' = modified latest"
  shows "checkForNewCSV b' (fst (checkForNewCSV b this)) = (fst (checkForNewCSV b this), []) \<and>
    (loadCSVText b (filename latest) = Inr (Str text) \<longrightarrow>
       (\<forall>rows f. Rebalance rows f \<in> set (snd (checkForNewCSV b this)) \<longrightarrow>
          rows = parseCSV text \<and> f = filename latest)) \<and>
    (loadCSVText b' (filename latest) = Inr (Str text) \<longrightarrow>
       snd (checkForNewCSV b' (setOnRebalance cb constructor)) =
         [UpdateCSVStatus (filename latest),
          Rebalance (parseCSV text) (filename latest),
          ShowNotification (case cb (parseCSV text) (filename latest) of
                              None \<Rightarrow> Success (length (parseCSV text))
                            | Some msg \<Rightarrow> Failure msg)])"
proof (intro conjI impI allI)
  from checkForNewCSV_tracks [OF assms(1), of this] assms(3,4)
  have "currentCSV (fst (checkForNewCSV b this)) = Some (filename latest')"
    and "lastModified (fst (checkForNewCSV b this)) = Some (modified latest')"
    by simp_all
  with assms(2)
  show "checkForNewCSV b' (fst (checkForNewCSV b this)) = (fst (checkForNewCSV b this), [])"
    by (rule checkForNewCSV_unchanged)
next
  fix rows f
  assume l: "loadCSVText b (filename latest) = Inr (Str text)"
    and r: "Rebalance rows f \<in> set (snd (checkForNewCSV b this))"
  show "rows = parseCSV text"
  proof (cases "currentCSV this = Some (filename latest) \<and>
                lastModified this = Some (modified latest)")
    case True
    with assms(1) r show ?thesis by (simp add: checkForNewCSV_unchanged)
  next
    case False
    then have "currentCSV this \<noteq> Some (filename latest) \<or>
               lastModified this \<noteq> Some (modified latest)"
      by simp
    from checkForNewCSV_new [OF assms(1) this] r l show ?thesis
      by (auto simp: triggerRebalancing_loaded split: option.splits)
  qed
  show "f = filename latest"
  proof (cases "currentCSV this = Some (filename latest) \<and>
                lastModified this = Some (modified latest)")
    case True
    with assms(1) r show ?thesis by (simp add: checkForNewCSV_unchanged)
  next
    case False
    then have "currentCSV this \<noteq> Some (filename latest) \<or>
               lastModified this \<noteq> Some (modified latest)"
      by simp
    from checkForNewCSV_new [OF assms(1) this] r l show ?thesis
      by (auto simp: triggerRebalancing_loaded split: option.splits)
  qed
next
  assume l: "loadCSVText b' (filename latest) = Inr (Str text)"
  let ?fresh = "setOnRebalance cb constructor"
  have n: "currentCSV ?fresh \<noteq> Some (filename latest') \<or>
           lastModified ?fresh \<noteq> Some (modified latest')"
    by (simp add: setOnRebalance_def constructor_def)
  have cb: "onRebalanceCallback
              (?fresh\<lparr> currentCSV := Some (filename latest'),
                       lastModified := Some (modified latest') \<rparr>) = Some cb"
    by (simp add: setOnRebalance_def)
  from checkForNewCSV_new [OF assms(2) n] l assms(3) cb
  show "snd (checkForNewCSV b' ?fresh) =
         [UpdateCSVStatus (filename latest),
          Rebalance (parseCSV text) (filename latest),
          ShowNotification (case cb (parseCSV text) (filename latest) of
                              None \<Rightarrow> Success (length (parseCSV text))
                            | Some msg \<Rightarrow> Failure msg)]"
    by (simp add: triggerRebalancing_loaded)
qed

theorem ingestor_idempotent_until_restart_witness:
  "checkForNewCSV
     \<lparr> now = \<lparr> toISOString = ''2025-09-17T00:05:00.000Z'', toLocaleString_Paris = ''02:05:00'',
               getHours = 0, getMinutes = 5 \<rparr>,
       api_csv_files = Ok (Some [\<lparr> filename = ''lpxd_external_advisors_DF_20250916-2355.csv'',
           modified = ''2025-09-16T23:55:10.000Z'', size = ''12'' \<rparr>]),
       head_local_csv = NotOk,
       api_csv_content = (\<lambda>f. Ok (Str (''ticker,target_notional'' @ [CHR 0x0A] @ ''AAA,1000''))),
       get_local_file = (\<lambda>f. NotOk),
       elements = Map.empty, portfolioData = Nullish,
       cumulativePnL = Undefined, addPortfolioValueDataPoint = False \<rparr>
     (fst (checkForNewCSV
        \<lparr> now = \<lparr> toISOString = ''2025-09-17T00:05:00.000Z'', toLocaleString_Paris = ''02:05:00'',
               getHours = 0, getMinutes = 5 \<rparr>,
       api_csv_files = Ok (Some [\<lparr> filename = ''lpxd_external_advisors_DF_20250916-2355.csv'',
           modified = ''2025-09-16T23:55:10.000Z'', size = ''12'' \<rparr>]),
       head_local_csv = NotOk,
       api_csv_content = (\<lambda>f. Ok (Str (''ticker,target_notional'' @ [CHR 0x0A] @ ''AAA,1000''))),
       get_local_file = (\<lambda>f. NotOk),
       elements = Map.empty, portfolioData = Nullish,
       cumulativePnL = Undefined, addPortfolioValueDataPoint = False \<rparr>
        (setOnRebalance (\<lambda>rows f. None) constructor)))
   = ((setOnRebalance (\<lambda>rows f. None) constructor)
       \<lparr> currentCSV := Some ''lpxd_external_advisors_DF_20250916-2355.csv'',
         lastModified := Some ''2025-09-16T23:55:10.000Z'' \<rparr>, []) \<and>
   parseCSV (''ticker,target_notional'' @ [CHR 0x0A] @ ''AAA,1000'') =
     [[''ticker'' \<mapsto> ''AAA'', ''target_notional'' \<mapsto> ''1000'']] \<and>
   snd (checkForNewCSV
     \<lparr> now = \<lparr> toISOString = ''2025-09-17T00:05:00.000Z'', toLocaleString_Paris = ''02:05:00'',
               getHours = 0, getMinutes = 5 \<rparr>,
       api_csv_files = Ok (Some [\<lparr> filename = ''lpxd_external_advisors_DF_20250916-2355.csv'',
           modified = ''2025-09-16T23:55:10.000Z'', size = ''12'' \<rparr>]),
       head_local_csv = NotOk,
       api_csv_content = (\<lambda>f. Ok (Str (''ticker,target_notional'' @ [CHR 0x0A] @ ''AAA,1000''))),
       get_local_file = (\<lambda>f. NotOk),
       elements = Map.empty, portfolioData = Nullish,
       cumulativePnL = Undefined, addPortfolioValueDataPoint = False \<rparr>
     (setOnRebalance (\<lambda>rows f. None) constructor))
   = [UpdateCSVStatus ''lpxd_external_advisors_DF_20250916-2355.csv'',
      Rebalance [[''ticker'' \<mapsto> ''AAA'', ''target_notional'' \<mapsto> ''1000'']] ''lpxd_external_advisors_DF_20250916-2355.csv'',
      ShowNotification (Success 1)]"
proof -
  let ?b = "\<lparr> now = \<lparr> toISOString = ''2025-09-17T00:05:00.000Z'', toLocaleString_Paris = ''02:05:00'',
               getHours = 0, getMinutes = 5 \<rparr>,
       api_csv_files = Ok (Some [\<lparr> filename = ''lpxd_external_advisors_DF_20250916-2355.csv'',
           modified = ''2025-09-16T23:55:10.000Z'', size = ''12'' \<rparr>]),
       head_local_csv = NotOk,
       api_csv_content = (\<lambda>f. Ok (Str (''ticker,target_notional'' @ [CHR 0x0A] @ ''AAA,1000''))),
       get_local_file = (\<lambda>f. NotOk),
       elements = Map.empty, portfolioData = Nullish,
       cumulativePnL = Undefined, addPortfolioValueDataPoint = False \<rparr>"
  let ?latest = "\<lparr> filename = ''lpxd_external_advisors_DF_20250916-2355.csv'',
           modified = ''2025-09-16T23:55:10.000Z'', size = ''12'' \<rparr>"
  have sel: "findLatestCSV (getCSVFiles ?b) = Inr (Some ?latest)"
    by (simp add: monitor_eval)
  have load: "loadCSVText ?b (filename ?latest) = Inr (Str (''ticker,target_notional'' @ [CHR 0x0A] @ ''AAA,1000''))"
    by (simp add: monitor_eval)
  have first: "fst (checkForNewCSV ?b (setOnRebalance (\<lambda>rows f. None) constructor)) = (setOnRebalance (\<lambda>rows f. None) constructor)
       \<lparr> currentCSV := Some ''lpxd_external_advisors_DF_20250916-2355.csv'',
         lastModified := Some ''2025-09-16T23:55:10.000Z'' \<rparr>"
    by (simp add: monitor_eval)
  have emitted: "Rebalance [[''ticker'' \<mapsto> ''AAA'', ''target_notional'' \<mapsto> ''1000'']] ''lpxd_external_advisors_DF_20250916-2355.csv''
      \<in> set (snd (checkForNewCSV ?b (setOnRebalance (\<lambda>rows f. None) constructor)))"
    by (simp add: monitor_eval parse_eval)
  note r = ingestor_idempotent_until_restart [OF sel sel refl refl,
      of "(setOnRebalance (\<lambda>rows f. None) constructor)" "''ticker,target_notional'' @ [CHR 0x0A] @ ''AAA,1000''" "\<lambda>rows f. None"]
  from r first have a: "checkForNewCSV ?b (fst (checkForNewCSV ?b (setOnRebalance (\<lambda>rows f. None) constructor))) = ((setOnRebalance (\<lambda>rows f. None) constructor)
       \<lparr> currentCSV := Some ''lpxd_external_advisors_DF_20250916-2355.csv'',
         lastModified := Some ''2025-09-16T23:55:10.000Z'' \<rparr>, [])"
    by simp
  from r load emitted
  have "[[''ticker'' \<mapsto> ''AAA'', ''target_notional'' \<mapsto> ''1000'']] = parseCSV (''ticker,target_notional'' @ [CHR 0x0A] @ ''AAA,1000'')"
    by blast
  then have p: "parseCSV (''ticker,target_notional'' @ [CHR 0x0A] @ ''AAA,1000'') =
      [[''ticker'' \<mapsto> ''AAA'', ''target_notional'' \<mapsto> ''1000'']]"
    by (rule sym)
  from r load have "snd (checkForNewCSV ?b (setOnRebalance (\<lambda>rows f. None) constructor)) =
      [UpdateCSVStatus (filename ?latest),
       Rebalance (parseCSV (''ticker,target_notional'' @ [CHR 0x0A] @ ''AAA,1000'')) (filename ?latest),
       ShowNotification (case (\<lambda>rows f. None) (parseCSV (''ticker,target_notional'' @ [CHR 0x0A] @ ''AAA,1000'')) (filename ?latest) of
                           None \<Rightarrow> Success (length (parseCSV (''ticker,target_notional'' @ [CHR 0x0A] @ ''AAA,1000'')))
                         | Some msg \<Rightarrow> Failure msg)]"
    by blast
  with p have b: "snd (checkForNewCSV ?b (setOnRebalance (\<lambda>rows f. None) constructor)) =
      [UpdateCSVStatus ''lpxd_external_advisors_DF_20250916-2355.csv'',
       Rebalance [[''ticker'' \<mapsto> ''AAA'', ''target_notional'' \<mapsto> ''1000'']] ''lpxd_external_advisors_DF_20250916-2355.csv'',
       ShowNotification (Success 1)]"
    by simp
  from a p b show ?thesis by blast
qed

text \<open>
  \<^bold>\<open>C2\<close>, as the claim states it, fails: the monitor records the new file before it
  processes it. Here the monitoring server does not deliver the content and the local
  file cannot be loaded; after the cycle \<open>currentCSV\<close> and \<open>lastModified\<close> are those of
  the new file, no longer the \<open>None\<close> they were, and the next cycle does not try again.
\<close>

theorem failed_file_counterexample:
  "currentCSV (setOnRebalance (\<lambda>rows f. None) constructor) = None \<and>
   checkForNewCSV
     \<lparr> now = \<lparr> toISOString = ''2025-09-17T00:05:00.000Z'', toLocaleString_Paris = ''02:05:00'',
               getHours = 0, getMinutes = 5 \<rparr>,
       api_csv_files = Ok (Some [\<lparr> filename = ''lpxd_external_advisors_DF_20250916-2355.csv'',
           modified = ''2025-09-16T23:55:10.000Z'', size = ''12'' \<rparr>]),
       head_local_csv = NotOk,
       api_csv_content = (\<lambda>f. Rejected ''Failed to fetch''),
       get_local_file = (\<lambda>f. NotOk),
       elements = Map.empty, portfolioData = Nullish,
       cumulativePnL = Undefined, addPortfolioValueDataPoint = False \<rparr>
     (setOnRebalance (\<lambda>rows f. None) constructor)
   = ((setOnRebalance (\<lambda>rows f. None) constructor)
       \<lparr> currentCSV := Some ''lpxd_external_advisors_DF_20250916-2355.csv'',
         lastModified := Some ''2025-09-16T23:55:10.000Z'' \<rparr>,
      [UpdateCSVStatus ''lpxd_external_advisors_DF_20250916-2355.csv'',
       ShowNotification (Failure ''Failed to load lpxd_external_advisors_DF_20250916-2355.csv'')]) \<and>
   currentCSV (fst (checkForNewCSV
     \<lparr> now = \<lparr> toISOString = ''2025-09-17T00:05:00.000Z'', toLocaleString_Paris = ''02:05:00'',
               getHours = 0, getMinutes = 5 \<rparr>,
       api_csv_files = Ok (Some [\<lparr> filename = ''lpxd_external_advisors_DF_20250916-2355.csv'',
           modified = ''2025-09-16T23:55:10.000Z'', size = ''12'' \<rparr>]),
       head_local_csv = NotOk,
       api_csv_content = (\<lambda>f. Rejected ''Failed to fetch''),
       get_local_file = (\<lambda>f. NotOk),
       elements = Map.empty, portfolioData = Nullish,
       cumulativePnL = Undefined, addPortfolioValueDataPoint = False \<rparr>
     (setOnRebalance (\<lambda>rows f. None) constructor))) = Some ''lpxd_external_advisors_DF_20250916-2355.csv'' \<and>
   checkForNewCSV
     \<lparr> now = \<lparr> toISOString = ''2025-09-17T00:05:00.000Z'', toLocaleString_Paris = ''02:05:00'',
               getHours = 0, getMinutes = 5 \<rparr>,
       api_csv_files = Ok (Some [\<lparr> filename = ''lpxd_external_advisors_DF_20250916-2355.csv'',
           modified = ''2025-09-16T23:55:10.000Z'', size = ''12'' \<rparr>]),
       head_local_csv = NotOk,
       api_csv_content = (\<lambda>f. Rejected ''Failed to fetch''),
       get_local_file = (\<lambda>f. NotOk),
       elements = Map.empty, portfolioData = Nullish,
       cumulativePnL = Undefined, addPortfolioValueDataPoint = False \<rparr>
     ((setOnRebalance (\<lambda>rows f. None) constructor)
       \<lparr> currentCSV := Some ''lpxd_external_advisors_DF_20250916-2355.csv'',
         lastModified := Some ''2025-09-16T23:55:10.000Z'' \<rparr>)
   = ((setOnRebalance (\<lambda>rows f. None) constructor)
       \<lparr> currentCSV := Some ''lpxd_external_advisors_DF_20250916-2355.csv'',
         lastModified := Some ''2025-09-16T23:55:10.000Z'' \<rparr>, [])"
  by (simp add: monitor_eval)

text \<open>
  \<^bold>\<open>C2\<close>, amended. When a newly detected file cannot be processed (its text cannot be
  loaded from the server or the local fallback, or what was loaded is not text, so that
  parsing throws), no position set is emitted: the only effects are the status bar update
  and an error notification. The monitor's state has advanced all the same:
  \<open>currentCSV\<close> and \<open>lastModified\<close> are those of the new file, and a later cycle that
  sees the same file does nothing, so the file is not attempted again.
\<close>

theorem failed_file_advances_state:
  assumes "findLatestCSV (getCSVFiles b) = Inr (Some latest)"
    and "currentCSV this \<noteq> Some (filename latest) \<or> lastModified this \<noteq> Some (modified latest)"
    and "\<forall>text. loadCSVText b (filename latest) \<noteq> Inr (Str text)"
  shows "fst (checkForNewCSV b this) =
           this\<lparr> currentCSV := Some (filename latest), lastModified := Some (modified latest) \<rparr> \<and>
         (\<exists>msg. snd (checkForNewCSV b this) =
                  [UpdateCSVStatus (filename latest), ShowNotification (Failure msg)]) \<and>
         checkForNewCSV b (fst (checkForNewCSV b this)) = (fst (checkForNewCSV b this), [])"
proof (intro conjI)
  note new = checkForNewCSV_new [OF assms(1,2)]
  from new show "fst (checkForNewCSV b this) =
      this\<lparr> currentCSV := Some (filename latest), lastModified := Some (modified latest) \<rparr>"
    by simp
  from new triggerRebalancing_failed [OF assms(3)]
  show "\<exists>msg. snd (checkForNewCSV b this) =
                  [UpdateCSVStatus (filename latest), ShowNotification (Failure msg)]"
    by simp
  from checkForNewCSV_tracks [OF assms(1), of this]
  show "checkForNewCSV b (fst (checkForNewCSV b this)) = (fst (checkForNewCSV b this), [])"
    by (simp add: checkForNewCSV_unchanged [OF assms(1)])
qed

theorem failed_file_advances_state_witness:
  "fst (checkForNewCSV
     \<lparr> now = \<lparr> toISOString = ''2025-09-17T00:05:00.000Z'', toLocaleString_Paris = ''02:05:00'',
               getHours = 0, getMinutes = 5 \<rparr>,
       api_csv_files = Ok (Some [\<lparr> filename = ''lpxd_external_advisors_DF_20250916-2355.csv'',
           modified = ''2025-09-16T23:55:10.000Z'', size = ''12'' \<rparr>]),
       head_local_csv = NotOk,
       api_csv_content = (\<lambda>f. Rejected ''Failed to fetch''),
       get_local_file = (\<lambda>f. NotOk),
       elements = Map.empty, portfolioData = Nullish,
       cumulativePnL = Undefined, addPortfolioValueDataPoint = False \<rparr>
     (setOnRebalance (\<lambda>rows f. None) constructor))
   = (setOnRebalance (\<lambda>rows f. None) constructor)
       \<lparr> currentCSV := Some ''lpxd_external_advisors_DF_20250916-2355.csv'',
         lastModified := Some ''2025-09-16T23:55:10.000Z'' \<rparr> \<and>
   checkForNewCSV
     \<lparr> now = \<lparr> toISOString = ''2025-09-17T00:05:00.000Z'', toLocaleString_Paris = ''02:05:00'',
               getHours = 0, getMinutes = 5 \<rparr>,
       api_csv_files = Ok (Some [\<lparr> filename = ''lpxd_external_advisors_DF_20250916-2355.csv'',
           modified = ''2025-09-16T23:55:10.000Z'', size = ''12'' \<rparr>]),
       head_local_csv = NotOk,
       api_csv_content = (\<lambda>f. Rejected ''Failed to fetch''),
       get_local_file = (\<lambda>f. NotOk),
       elements = Map.empty, portfolioData = Nullish,
       cumulativePnL = Undefined, addPortfolioValueDataPoint = False \<rparr>
     (fst (checkForNewCSV
        \<lparr> now = \<lparr> toISOString = ''2025-09-17T00:05:00.000Z'', toLocaleString_Paris = ''02:05:00'',
               getHours = 0, getMinutes = 5 \<rparr>,
       api_csv_files = Ok (Some [\<lparr> filename = ''lpxd_external_advisors_DF_20250916-2355.csv'',
           modified = ''2025-09-16T23:55:10.000Z'', size = ''12'' \<rparr>]),
       head_local_csv = NotOk,
       api_csv_content = (\<lambda>f. Rejected ''Failed to fetch''),
       get_local_file = (\<lambda>f. NotOk),
       elements = Map.empty, portfolioData = Nullish,
       cumulativePnL = Undefined, addPortfolioValueDataPoint = False \<rparr>
        (setOnRebalance (\<lambda>rows f. None) constructor)))
   = (fst (checkForNewCSV
        \<lparr> now = \<lparr> toISOString = ''2025-09-17T00:05:00.000Z'', toLocaleString_Paris = ''02:05:00'',
               getHours = 0, getMinutes = 5 \<rparr>,
       api_csv_files = Ok (Some [\<lparr> filename = ''lpxd_external_advisors_DF_20250916-2355.csv'',
           modified = ''2025-09-16T23:55:10.000Z'', size = ''12'' \<rparr>]),
       head_local_csv = NotOk,
       api_csv_content = (\<lambda>f. Rejected ''Failed to fetch''),
       get_local_file = (\<lambda>f. NotOk),
       elements = Map.empty, portfolioData = Nullish,
       cumulativePnL = Undefined, addPortfolioValueDataPoint = False \<rparr>
        (setOnRebalance (\<lambda>rows f. None) constructor)), [])"
proof -
  let ?b = "\<lparr> now = \<lparr> toISOString = ''2025-09-17T00:05:00.000Z'', toLocaleString_Paris = ''02:05:00'',
               getHours = 0, getMinutes = 5 \<rparr>,
       api_csv_files = Ok (Some [\<lparr> filename = ''lpxd_external_advisors_DF_20250916-2355.csv'',
           modified = ''2025-09-16T23:55:10.000Z'', size = ''12'' \<rparr>]),
       head_local_csv = NotOk,
       api_csv_content = (\<lambda>f. Rejected ''Failed to fetch''),
       get_local_file = (\<lambda>f. NotOk),
       elements = Map.empty, portfolioData = Nullish,
       cumulativePnL = Undefined, addPortfolioValueDataPoint = False \<rparr>"
  let ?latest = "\<lparr> filename = ''lpxd_external_advisors_DF_20250916-2355.csv'',
           modified = ''2025-09-16T23:55:10.000Z'', size = ''12'' \<rparr>"
  have sel: "findLatestCSV (getCSVFiles ?b) = Inr (Some ?latest)"
    by (simp add: monitor_eval)
  have new: "currentCSV (setOnRebalance (\<lambda>rows f. None) constructor) \<noteq> Some (filename ?latest) \<or>
             lastModified (setOnRebalance (\<lambda>rows f. None) constructor) \<noteq> Some (modified ?latest)"
    by (simp add: setOnRebalance_def constructor_def)
  have fail: "\<forall>text. loadCSVText ?b (filename ?latest) \<noteq> Inr (Str text)"
    by (simp add: loadCSVText_def)
  note r = failed_file_advances_state [OF sel new fail]
  from r have a: "fst (checkForNewCSV ?b (setOnRebalance (\<lambda>rows f. None) constructor)) = (setOnRebalance (\<lambda>rows f. None) constructor)
       \<lparr> currentCSV := Some ''lpxd_external_advisors_DF_20250916-2355.csv'',
         lastModified := Some ''2025-09-16T23:55:10.000Z'' \<rparr>"
    by simp
  from r have b: "checkForNewCSV ?b (fst (checkForNewCSV ?b (setOnRebalance (\<lambda>rows f. None) constructor))) =
      (fst (checkForNewCSV ?b (setOnRebalance (\<lambda>rows f. None) constructor)), [])"
    by blast
  from a b show ?thesis by (rule conjI)
qed

text \<open>
  \<^bold>\<open>C3\<close>, as the claim states it, fails: nothing checks the columns or the weights. The
  file here has a weight column whose only entry is \<^verbatim>\<open>abc\<close>; it is parsed like any other
  and the callback receives the position set built from it.
\<close>

theorem unvalidated_file_counterexample:
  "checkForNewCSV
     \<lparr> now = \<lparr> toISOString = ''2025-09-17T00:05:00.000Z'', toLocaleString_Paris = ''02:05:00'',
               getHours = 0, getMinutes = 5 \<rparr>,
       api_csv_files = Ok (Some [\<lparr> filename = ''lpxd_external_advisors_DF_20250916-2355.csv'',
           modified = ''2025-09-16T23:55:10.000Z'', size = ''12'' \<rparr>]),
       head_local_csv = NotOk,
       api_csv_content = (\<lambda>f. Ok (Str (''ticker,weight'' @ [CHR 0x0A] @ ''AAA,abc''))),
       get_local_file = (\<lambda>f. NotOk),
       elements = Map.empty, portfolioData = Nullish,
       cumulativePnL = Undefined, addPortfolioValueDataPoint = False \<rparr>
     (setOnRebalance (\<lambda>rows f. None) constructor)
   = ((setOnRebalance (\<lambda>rows f. None) constructor)
       \<lparr> currentCSV := Some ''lpxd_external_advisors_DF_20250916-2355.csv'',
         lastModified := Some ''2025-09-16T23:55:10.000Z'' \<rparr>,
      [UpdateCSVStatus ''lpxd_external_advisors_DF_20250916-2355.csv'',
       Rebalance [[''ticker'' \<mapsto> ''AAA'', ''weight'' \<mapsto> ''abc'']] ''lpxd_external_advisors_DF_20250916-2355.csv'',
       ShowNotification (Success 1)])"
  by (simp add: monitor_eval parse_eval)

text \<open>
  \<^bold>\<open>C3\<close>, amended. The ingestor does not validate the content of a rebalance file.
  Whatever text is loaded for the file, it is split into lines and cells as it is, and
  when a callback is registered it is invoked with the position set so obtained. That
  set has one row for each line after the first. The columns of each row are the trimmed
  names of the first line, whatever these are (\<^verbatim>\<open>__proto__\<close> apart, which never becomes
  a column). The value of a column is the trimmed cell of the line at the index of the
  last header of that name, whatever the cell holds, and the empty string when the line
  has no cell there or an empty one.
\<close>

theorem loaded_file_is_not_validated:
  assumes "loadCSVText b f = Inr (Str text)"
    and "onRebalanceCallback this = Some cb"
  shows "triggerRebalancing b this f =
           [UpdateCSVStatus f,
            Rebalance (parseCSV text) f,
            ShowNotification (case cb (parseCSV text) f of
                                None \<Rightarrow> Success (length (parseCSV text))
                              | Some msg \<Rightarrow> Failure msg)] \<and>
         (let lines = split_str (CHR 0x0A) (trim text);
              headers = split_str (CHR '','') (hd lines)
          in length (parseCSV text) = length lines - 1 \<and>
             length lines = Suc (length (filter (\<lambda>c. c = CHR 0x0A) (trim text))) \<and>
             (\<forall>r \<in> set (parseCSV text). dom r = set (map trim headers) - {''__proto__''}) \<and>
             (\<forall>i < length (parseCSV text). \<forall>j < length headers.
                trim (headers ! j) \<noteq> ''__proto__'' \<and>
                (\<forall>k. j < k \<and> k < length headers \<longrightarrow> trim (headers ! k) \<noteq> trim (headers ! j)) \<longrightarrow>
                (parseCSV text ! i) (trim (headers ! j)) =
                  Some (let values = split_str (CHR '','') (lines ! Suc i)
                        in if j < length values \<and> values ! j \<noteq> []
                           then trim (values ! j) else [])))"
proof (intro conjI)
  from assms show "triggerRebalancing b this f =
           [UpdateCSVStatus f,
            Rebalance (parseCSV text) f,
            ShowNotification (case cb (parseCSV text) f of
                                None \<Rightarrow> Success (length (parseCSV text))
                              | Some msg \<Rightarrow> Failure msg)]"
    by (simp add: triggerRebalancing_loaded)
next
  define lines where "lines = split_str (CHR 0x0A) (trim text)"
  define headers where "headers = split_str (CHR '','') (hd lines)"
  have rows: "parseCSV text = map (parse_row headers) (tl lines)"
    by (simp add: parseCSV_def Let_def lines_def headers_def)
  have len: "length (parseCSV text) = length lines - 1"
    by (simp add: rows)
  have cnt: "length lines = Suc (length (filter (\<lambda>c. c = CHR 0x0A) (trim text)))"
    by (simp add: lines_def split_str_length)
  have cols: "\<forall>r \<in> set (parseCSV text). dom r = set (map trim headers) - {''__proto__''}"
    by (auto simp: rows dom_parse_row)
  have vals: "\<forall>i < length (parseCSV text). \<forall>j < length headers.
                trim (headers ! j) \<noteq> ''__proto__'' \<and>
                (\<forall>k. j < k \<and> k < length headers \<longrightarrow> trim (headers ! k) \<noteq> trim (headers ! j)) \<longrightarrow>
                (parseCSV text ! i) (trim (headers ! j)) =
                  Some (let values = split_str (CHR '','') (lines ! Suc i)
                        in if j < length values \<and> values ! j \<noteq> []
                           then trim (values ! j) else [])"
  proof (intro allI impI)
    fix i j
    assume i: "i < length (parseCSV text)" and j: "j < length headers"
      and h: "trim (headers ! j) \<noteq> ''__proto__'' \<and>
              (\<forall>k. j < k \<and> k < length headers \<longrightarrow> trim (headers ! k) \<noteq> trim (headers ! j))"
    from i have it: "i < length (tl lines)" by (simp add: rows)
    then have line: "tl lines ! i = lines ! Suc i"
      by (simp add: nth_tl)
    from it have "parseCSV text ! i = parse_row headers (lines ! Suc i)"
      by (simp add: rows line)
    moreover from j h
    have "parse_row headers (lines ! Suc i) (trim (headers ! j)) =
            Some (cell (split_str (CHR '','') (lines ! Suc i)) j)"
      by (intro parse_row_lookup) simp_all
    ultimately show "(parseCSV text ! i) (trim (headers ! j)) =
                  Some (let values = split_str (CHR '','') (lines ! Suc i)
                        in if j < length values \<and> values ! j \<noteq> []
                           then trim (values ! j) else [])"
      by (simp add: cell_def Let_def)
  qed
  from len cnt cols vals
  show "let lines = split_str (CHR 0x0A) (trim text);
            headers = split_str (CHR '','') (hd lines)
        in length (parseCSV text) = length lines - 1 \<and>
           length lines = Suc (length (filter (\<lambda>c. c = CHR 0x0A) (trim text))) \<and>
           (\<forall>r \<in> set (parseCSV text). dom r = set (map trim headers) - {''__proto__''}) \<and>
           (\<forall>i < length (parseCSV text). \<forall>j < length headers.
              trim (headers ! j) \<noteq> ''__proto__'' \<and>
              (\<forall>k. j < k \<and> k < length headers \<longrightarrow> trim (headers ! k) \<noteq> trim (headers ! j)) \<longrightarrow>
              (parseCSV text ! i) (trim (headers ! j)) =
                Some (let values = split_str (CHR '','') (lines ! Suc i)
                      in if j < length values \<and> values ! j \<noteq> []
                         then trim (values ! j) else []))"
    unfolding lines_def headers_def Let_def by blast
qed

theorem loaded_file_is_not_validated_witness:
  "triggerRebalancing
     \<lparr> now = \<lparr> toISOString = ''2025-09-17T00:05:00.000Z'', toLocaleString_Paris = ''02:05:00'',
               getHours = 0, getMinutes = 5 \<rparr>,
       api_csv_files = Ok (Some [\<lparr> filename = ''lpxd_external_advisors_DF_20250916-2355.csv'',
           modified = ''2025-09-16T23:55:10.000Z'', size = ''12'' \<rparr>]),
       head_local_csv = NotOk,
       api_csv_content = (\<lambda>f. Ok (Str (''ticker,weight,__proto__'' @ [CHR 0x0A] @ ''AAA,abc,x'' @ [CHR 0x0A] @ ''BBB''))),
       get_local_file = (\<lambda>f. NotOk),
       elements = Map.empty, portfolioData = Nullish,
       cumulativePnL = Undefined, addPortfolioValueDataPoint = False \<rparr>
     ((setOnRebalance (\<lambda>rows f. None) constructor)
       \<lparr> currentCSV := Some ''lpxd_external_advisors_DF_20250916-2355.csv'',
         lastModified := Some ''2025-09-16T23:55:10.000Z'' \<rparr>)
     ''lpxd_external_advisors_DF_20250916-2355.csv''
   = [UpdateCSVStatus ''lpxd_external_advisors_DF_20250916-2355.csv'',
      Rebalance [[''ticker'' \<mapsto> ''AAA'', ''weight'' \<mapsto> ''abc''], [''ticker'' \<mapsto> ''BBB'', ''weight'' \<mapsto> '''']] ''lpxd_external_advisors_DF_20250916-2355.csv'',
      ShowNotification (Success 2)] \<and>
   length (parseCSV (''ticker,weight,__proto__'' @ [CHR 0x0A] @ ''AAA,abc,x'' @ [CHR 0x0A] @ ''BBB'')) = 2 \<and>
   dom (parseCSV (''ticker,weight,__proto__'' @ [CHR 0x0A] @ ''AAA,abc,x'' @ [CHR 0x0A] @ ''BBB'') ! 0) = {''ticker'', ''weight''} \<and>
   (parseCSV (''ticker,weight,__proto__'' @ [CHR 0x0A] @ ''AAA,abc,x'' @ [CHR 0x0A] @ ''BBB'') ! 0) ''weight'' = Some ''abc'' \<and>
   (parseCSV (''ticker,weight,__proto__'' @ [CHR 0x0A] @ ''AAA,abc,x'' @ [CHR 0x0A] @ ''BBB'') ! 1) ''weight'' = Some ''''"
proof -
  let ?b = "\<lparr> now = \<lparr> toISOString = ''2025-09-17T00:05:00.000Z'', toLocaleString_Paris = ''02:05:00'',
               getHours = 0, getMinutes = 5 \<rparr>,
       api_csv_files = Ok (Some [\<lparr> filename = ''lpxd_external_advisors_DF_20250916-2355.csv'',
           modified = ''2025-09-16T23:55:10.000Z'', size = ''12'' \<rparr>]),
       head_local_csv = NotOk,
       api_csv_content = (\<lambda>f. Ok (Str (''ticker,weight,__proto__'' @ [CHR 0x0A] @ ''AAA,abc,x'' @ [CHR 0x0A] @ ''BBB''))),
       get_local_file = (\<lambda>f. NotOk),
       elements = Map.empty, portfolioData = Nullish,
       cumulativePnL = Undefined, addPortfolioValueDataPoint = False \<rparr>"
  let ?mon = "(setOnRebalance (\<lambda>rows f. None) constructor)
       \<lparr> currentCSV := Some ''lpxd_external_advisors_DF_20250916-2355.csv'',
         lastModified := Some ''2025-09-16T23:55:10.000Z'' \<rparr>"
  let ?text = "''ticker,weight,__proto__'' @ [CHR 0x0A] @ ''AAA,abc,x'' @ [CHR 0x0A] @ ''BBB''"
  have load: "loadCSVText ?b ''lpxd_external_advisors_DF_20250916-2355.csv'' = Inr (Str ?text)"
    by (simp add: loadCSVText_def)
  have cb: "onRebalanceCallback ?mon = Some (\<lambda>rows f. None)"
    by (simp add: setOnRebalance_def)
  have lines: "split_str (CHR 0x0A) (trim ?text) = [''ticker,weight,__proto__'', ''AAA,abc,x'', ''BBB'']"
    by (simp add: trim_def is_space_def)
  have headers: "split_str (CHR '','') ''ticker,weight,__proto__'' = [''ticker'', ''weight'', ''__proto__'']"
    by simp
  have trims: "trim ''ticker'' = ''ticker''" "trim ''weight'' = ''weight''"
    "trim ''__proto__'' = ''__proto__''" "trim ''abc'' = ''abc''"
    by (simp_all add: trim_def is_space_def)
  note r = loaded_file_is_not_validated [OF load cb, unfolded Let_def lines list.sel headers]
  note eff = r [THEN conjunct1]
  note len0 = r [THEN conjunct2, THEN conjunct1]
  note cols = r [THEN conjunct2, THEN conjunct2, THEN conjunct2, THEN conjunct1]
  note vals = r [THEN conjunct2, THEN conjunct2, THEN conjunct2, THEN conjunct2]
  from len0 have len: "length (parseCSV ?text) = 2"
    by simp
  from len have "parseCSV ?text ! 0 \<in> set (parseCSV ?text)"
    by (intro nth_mem) simp
  with cols have "dom (parseCSV ?text ! 0) =
      set (map trim [''ticker'', ''weight'', ''__proto__'']) - {''__proto__''}"
    by (rule bspec)
  then have d: "dom (parseCSV ?text ! 0) = {''ticker'', ''weight''}"
    by (simp add: trims insert_Diff_if)
  have last: "\<forall>k. (1::nat) < k \<and> k < length [''ticker'', ''weight'', ''__proto__''] \<longrightarrow>
         trim ([''ticker'', ''weight'', ''__proto__''] ! k) \<noteq> trim ([''ticker'', ''weight'', ''__proto__''] ! 1)"
  proof (intro allI impI)
    fix k :: nat
    assume "1 < k \<and> k < length [''ticker'', ''weight'', ''__proto__'']"
    then have "k = 2" by simp
    then show "trim ([''ticker'', ''weight'', ''__proto__''] ! k) \<noteq>
               trim ([''ticker'', ''weight'', ''__proto__''] ! 1)"
      by (simp add: trims)
  qed
  from len have pos: "0 < length (parseCSV ?text)" "1 < length (parseCSV ?text)"
    by simp_all
  from vals [rule_format, OF pos(1), of 1] last
  have v0: "(parseCSV ?text ! 0) ''weight'' = Some ''abc''"
    by (simp add: trims)
  from vals [rule_format, OF pos(2), of 1] last
  have v1: "(parseCSV ?text ! 1) ''weight'' = Some ''''"
    by (simp add: trims)
  have rows: "parseCSV ?text = [[''ticker'' \<mapsto> ''AAA'', ''weight'' \<mapsto> ''abc''], [''ticker'' \<mapsto> ''BBB'', ''weight'' \<mapsto> '''']]"
    by (simp add: parse_eval)
  from eff rows len have a: "triggerRebalancing ?b ?mon ''lpxd_external_advisors_DF_20250916-2355.csv'' =
      [UpdateCSVStatus ''lpxd_external_advisors_DF_20250916-2355.csv'',
       Rebalance [[''ticker'' \<mapsto> ''AAA'', ''weight'' \<mapsto> ''abc''], [''ticker'' \<mapsto> ''BBB'', ''weight'' \<mapsto> '''']] ''lpxd_external_advisors_DF_20250916-2355.csv'',
       ShowNotification (Success 2)]"
    by simp
  from a len d v0 v1 show ?thesis by (intro conjI)
qed

section \<open>Properties of the portfolio logger\<close>

subsection \<open>Counting the positions\<close>

lemma fold_count_step:
  "fold (count_step B) ps (lc, sc, nl, ns) =
     (lc + length (filter (is_long B) ps),
      sc + length (filter (\<lambda>p. \<not> is_long B p) ps),
      foldl (js_add B) nl (map (notional_of B) (filter (is_long B) ps)),
      foldl (js_add B) ns (map (\<lambda>p. js_abs (notional_of B p)) (filter (\<lambda>p. \<not> is_long B p) ps)))"
proof (induction ps arbitrary: lc sc nl ns)
  case Nil
  then show ?case by simp
next
  case (Cons p ps)
  show ?case
  proof (cases "is_long B p")
    case True
    then have "count_step B p (lc, sc, nl, ns) = (lc + 1, sc, js_add B nl (notional_of B p), ns)"
      by (simp add: count_step_def)
    with True Cons.IH show ?thesis by simp
  next
    case False
    then have "count_step B p (lc, sc, nl, ns) =
                 (lc, sc + 1, nl, js_add B ns (js_abs (notional_of B p)))"
      by (simp add: count_step_def)
    with False Cons.IH show ?thesis by simp
  qed
qed

lemma is_long_cases:
  "is_long B p \<longleftrightarrow>
     (case parseFloat_prop B (p ''target_contracts'') of
        Fin x \<Rightarrow> 0 < x | PosInf \<Rightarrow> True | NaN \<Rightarrow> False | NegInf \<Rightarrow> False)"
  by (simp add: is_long_def split: jsnum.splits)

text \<open>
  \<^bold>\<open>C9.\<close> Classification of positions. \<open>getPositionCounts\<close> counts a position as
  long exactly when its \<^verbatim>\<open>target_contracts\<close> parses to a number greater than 0 (a
  positive finite number or positive infinity); a position whose \<^verbatim>\<open>target_contracts\<close>
  is 0, negative, absent or does not parse counts as short. The long count is the number
  of the former, the short count the number of the latter, and the total returned is
  always their sum (the number of positions). The long notional is the sum, in list
  order, of the notionals of the long positions with their signs; the short notional the
  sum of the absolute values of the notionals of the short positions.
\<close>

theorem getPositionCounts_classification:
  "(getPositionCounts B b = Inr c \<longrightarrow> total c = long c + short c) \<and>
   (getPositionCounts B b = Inr c \<and> portfolioData b = Positions ps \<longrightarrow>
      long c = length (filter (is_long B) ps) \<and>
      short c = length (filter (\<lambda>p. \<not> is_long B p) ps) \<and>
      total c = length ps \<and>
      longNotional c = foldl (js_add B) (Fin 0) (map (notional_of B) (filter (is_long B) ps)) \<and>
      shortNotional c =
        foldl (js_add B) (Fin 0)
          (map (\<lambda>p. js_abs (notional_of B p)) (filter (\<lambda>p. \<not> is_long B p) ps))) \<and>
   (is_long B p \<longleftrightarrow>
      (case parseFloat_prop B (p ''target_contracts'') of
         Fin x \<Rightarrow> 0 < x | PosInf \<Rightarrow> True | NaN \<Rightarrow> False | NegInf \<Rightarrow> False))"
proof (intro conjI impI)
  assume "getPositionCounts B b = Inr c"
  then show "total c = long c + short c"
    by (auto simp: getPositionCounts_def split: portfolio_global.splits if_splits prod.splits)
next
  assume a: "getPositionCounts B b = Inr c \<and> portfolioData b = Positions ps"
  have len: "length (filter (is_long B) ps) + length (filter (\<lambda>p. \<not> is_long B p) ps) = length ps"
    by (rule sum_length_filter_compl)
  from a have c: "c = \<lparr> total = length (filter (is_long B) ps) + length (filter (\<lambda>p. \<not> is_long B p) ps),
        long = length (filter (is_long B) ps),
        short = length (filter (\<lambda>p. \<not> is_long B p) ps),
        longNotional = foldl (js_add B) (Fin 0) (map (notional_of B) (filter (is_long B) ps)),
        shortNotional = foldl (js_add B) (Fin 0)
          (map (\<lambda>p. js_abs (notional_of B p)) (filter (\<lambda>p. \<not> is_long B p) ps)) \<rparr>"
    by (cases "ps = []") (auto simp: getPositionCounts_def fold_count_step)
  from c show "long c = length (filter (is_long B) ps)" by simp
  from c show "short c = length (filter (\<lambda>p. \<not> is_long B p) ps)" by simp
  from c len show "total c = length ps" by simp
  from c show "longNotional c = foldl (js_add B) (Fin 0) (map (notional_of B) (filter (is_long B) ps))"
    by simp
  from c show "shortNotional c = foldl (js_add B) (Fin 0)
          (map (\<lambda>p. js_abs (notional_of B p)) (filter (\<lambda>p. \<not> is_long B p) ps))"
    by simp
next
  show "is_long B p \<longleftrightarrow>
      (case parseFloat_prop B (p ''target_contracts'') of
         Fin x \<Rightarrow> 0 < x | PosInf \<Rightarrow> True | NaN \<Rightarrow> False | NegInf \<Rightarrow> False)"
    by (rule is_long_cases)
qed

theorem getPositionCounts_classification_witness:
  "getPositionCounts
     \<lparr> parseFloat = (\<lambda>s. if s = ''5'' then Fin 5 else if s = ''-3'' then Fin (-3)
                        else if s = ''0'' then Fin 0 else if s = ''1000'' then Fin 1000
                        else if s = ''-2000'' then Fin (-2000) else NaN),
       fl = Fin,
       toFixed2 = (\<lambda>n. if n = Fin 40 then ''40.00'' else if n = Fin 1 then ''1.00''
                      else ''0.00''),
       numToString = (\<lambda>n. ''0'') \<rparr>
     \<lparr> now = \<lparr> toISOString = ''2025-09-17T00:05:00.000Z'', toLocaleString_Paris = ''02:05:00'',
               getHours = 2, getMinutes = 5 \<rparr>,
       api_csv_files = NotOk, head_local_csv = NotOk,
       api_csv_content = (\<lambda>f. NotOk), get_local_file = (\<lambda>f. NotOk),
       elements = Map.empty,
       portfolioData = Positions
         [[''target_contracts'' \<mapsto> ''5'', ''target_notional'' \<mapsto> ''1000''],
          [''target_contracts'' \<mapsto> ''-3'', ''target_notional'' \<mapsto> ''-2000''],
          [''target_contracts'' \<mapsto> ''0'', ''target_notional'' \<mapsto> ''1000''],
          [''target_contracts'' \<mapsto> ''abc'', ''target_notional'' \<mapsto> ''-2000'']],
       cumulativePnL = Undefined, addPortfolioValueDataPoint = True \<rparr>
   = Inr \<lparr> total = 4, long = 1, short = 3, longNotional = Fin 1000, shortNotional = Fin 5000 \<rparr> \<and>
   total \<lparr> total = 4, long = 1, short = 3, longNotional = Fin 1000, shortNotional = Fin 5000 \<rparr> =
     long \<lparr> total = 4, long = 1, short = 3, longNotional = Fin 1000, shortNotional = Fin 5000 \<rparr> +
     short \<lparr> total = 4, long = 1, short = 3, longNotional = Fin 1000, shortNotional = Fin 5000 \<rparr> \<and>
   length (filter (is_long
     \<lparr> parseFloat = (\<lambda>s. if s = ''5'' then Fin 5 else if s = ''-3'' then Fin (-3)
                        else if s = ''0'' then Fin 0 else if s = ''1000'' then Fin 1000
                        else if s = ''-2000'' then Fin (-2000) else NaN),
       fl = Fin,
       toFixed2 = (\<lambda>n. if n = Fin 40 then ''40.00'' else if n = Fin 1 then ''1.00''
                      else ''0.00''),
       numToString = (\<lambda>n. ''0'') \<rparr>)
     [[''target_contracts'' \<mapsto> ''5'', ''target_notional'' \<mapsto> ''1000''],
          [''target_contracts'' \<mapsto> ''-3'', ''target_notional'' \<mapsto> ''-2000''],
          [''target_contracts'' \<mapsto> ''0'', ''target_notional'' \<mapsto> ''1000''],
          [''target_contracts'' \<mapsto> ''abc'', ''target_notional'' \<mapsto> ''-2000'']]) = 1 \<and>
   foldl (js_add
     \<lparr> parseFloat = (\<lambda>s. if s = ''5'' then Fin 5 else if s = ''-3'' then Fin (-3)
                        else if s = ''0'' then Fin 0 else if s = ''1000'' then Fin 1000
                        else if s = ''-2000'' then Fin (-2000) else NaN),
       fl = Fin,
       toFixed2 = (\<lambda>n. if n = Fin 40 then ''40.00'' else if n = Fin 1 then ''1.00''
                      else ''0.00''),
       numToString = (\<lambda>n. ''0'') \<rparr>) (Fin 0)
     (map (\<lambda>p. js_abs (notional_of
        \<lparr> parseFloat = (\<lambda>s. if s = ''5'' then Fin 5 else if s = ''-3'' then Fin (-3)
                        else if s = ''0'' then Fin 0 else if s = ''1000'' then Fin 1000
                        else if s = ''-2000'' then Fin (-2000) else NaN),
       fl = Fin,
       toFixed2 = (\<lambda>n. if n = Fin 40 then ''40.00'' else if n = Fin 1 then ''1.00''
                      else ''0.00''),
       numToString = (\<lambda>n. ''0'') \<rparr> p))
        (filter (\<lambda>p. \<not> is_long
           \<lparr> parseFloat = (\<lambda>s. if s = ''5'' then Fin 5 else if s = ''-3'' then Fin (-3)
                        else if s = ''0'' then Fin 0 else if s = ''1000'' then Fin 1000
                        else if s = ''-2000'' then Fin (-2000) else NaN),
       fl = Fin,
       toFixed2 = (\<lambda>n. if n = Fin 40 then ''40.00'' else if n = Fin 1 then ''1.00''
                      else ''0.00''),
       numToString = (\<lambda>n. ''0'') \<rparr> p)
           [[''target_contracts'' \<mapsto> ''5'', ''target_notional'' \<mapsto> ''1000''],
          [''target_contracts'' \<mapsto> ''-3'', ''target_notional'' \<mapsto> ''-2000''],
          [''target_contracts'' \<mapsto> ''0'', ''target_notional'' \<mapsto> ''1000''],
          [''target_contracts'' \<mapsto> ''abc'', ''target_notional'' \<mapsto> ''-2000'']])) = Fin 5000 \<and>
   is_long
     \<lparr> parseFloat = (\<lambda>s. if s = ''5'' then Fin 5 else if s = ''-3'' then Fin (-3)
                        else if s = ''0'' then Fin 0 else if s = ''1000'' then Fin 1000
                        else if s = ''-2000'' then Fin (-2000) else NaN),
       fl = Fin,
       toFixed2 = (\<lambda>n. if n = Fin 40 then ''40.00'' else if n = Fin 1 then ''1.00''
                      else ''0.00''),
       numToString = (\<lambda>n. ''0'') \<rparr>
     [''target_contracts'' \<mapsto> ''5'', ''target_notional'' \<mapsto> ''1000''] \<and>
   \<not> is_long
     \<lparr> parseFloat = (\<lambda>s. if s = ''5'' then Fin 5 else if s = ''-3'' then Fin (-3)
                        else if s = ''0'' then Fin 0 else if s = ''1000'' then Fin 1000
                        else if s = ''-2000'' then Fin (-2000) else NaN),
       fl = Fin,
       toFixed2 = (\<lambda>n. if n = Fin 40 then ''40.00'' else if n = Fin 1 then ''1.00''
                      else ''0.00''),
       numToString = (\<lambda>n. ''0'') \<rparr>
     [''target_contracts'' \<mapsto> ''abc'', ''target_notional'' \<mapsto> ''-2000'']"
proof -
  let ?B = "\<lparr> parseFloat = (\<lambda>s. if s = ''5'' then Fin 5 else if s = ''-3'' then Fin (-3)
                        else if s = ''0'' then Fin 0 else if s = ''1000'' then Fin 1000
                        else if s = ''-2000'' then Fin (-2000) else NaN),
       fl = Fin,
       toFixed2 = (\<lambda>n. if n = Fin 40 then ''40.00'' else if n = Fin 1 then ''1.00''
                      else ''0.00''),
       numToString = (\<lambda>n. ''0'') \<rparr>"
  let ?b = "\<lparr> now = \<lparr> toISOString = ''2025-09-17T00:05:00.000Z'', toLocaleString_Paris = ''02:05:00'',
               getHours = 2, getMinutes = 5 \<rparr>,
       api_csv_files = NotOk, head_local_csv = NotOk,
       api_csv_content = (\<lambda>f. NotOk), get_local_file = (\<lambda>f. NotOk),
       elements = Map.empty,
       portfolioData = Positions
         [[''target_contracts'' \<mapsto> ''5'', ''target_notional'' \<mapsto> ''1000''],
          [''target_contracts'' \<mapsto> ''-3'', ''target_notional'' \<mapsto> ''-2000''],
          [''target_contracts'' \<mapsto> ''0'', ''target_notional'' \<mapsto> ''1000''],
          [''target_contracts'' \<mapsto> ''abc'', ''target_notional'' \<mapsto> ''-2000'']],
       cumulativePnL = Undefined, addPortfolioValueDataPoint = True \<rparr>"
  let ?c = "\<lparr> total = 4, long = 1, short = 3, longNotional = Fin 1000, shortNotional = Fin 5000 \<rparr>"
  let ?ps = "[[''target_contracts'' \<mapsto> ''5'', ''target_notional'' \<mapsto> ''1000''],
          [''target_contracts'' \<mapsto> ''-3'', ''target_notional'' \<mapsto> ''-2000''],
          [''target_contracts'' \<mapsto> ''0'', ''target_notional'' \<mapsto> ''1000''],
          [''target_contracts'' \<mapsto> ''abc'', ''target_notional'' \<mapsto> ''-2000'']]"
  have g: "getPositionCounts ?B ?b = Inr ?c"
    by (simp add: getPositionCounts_def count_step_def is_long_def notional_of_def
          parseFloat_prop_def)
  have p: "portfolioData ?b = Positions ?ps"
    by simp
  note r1 = getPositionCounts_classification
    [of ?B ?b ?c ?ps "[''target_contracts'' \<mapsto> ''5'', ''target_notional'' \<mapsto> ''1000'']"]
  note r2 = getPositionCounts_classification
    [of ?B ?b ?c ?ps "[''target_contracts'' \<mapsto> ''abc'', ''target_notional'' \<mapsto> ''-2000'']"]
  from r1 g have t: "total ?c = long ?c + short ?c"
    by blast
  from r1 g p have "long ?c = length (filter (is_long ?B) ?ps)"
    by blast
  then have n: "length (filter (is_long ?B) ?ps) = 1"
    by (simp only: position_counts.simps)
  from r1 g p have "shortNotional ?c =
      foldl (js_add ?B) (Fin 0)
        (map (\<lambda>p. js_abs (notional_of ?B p)) (filter (\<lambda>p. \<not> is_long ?B p) ?ps))"
    by blast
  then have a: "foldl (js_add ?B) (Fin 0)
        (map (\<lambda>p. js_abs (notional_of ?B p)) (filter (\<lambda>p. \<not> is_long ?B p) ?ps)) = Fin 5000"
    by (simp only: position_counts.simps)
  from r1 have l: "is_long ?B [''target_contracts'' \<mapsto> ''5'', ''target_notional'' \<mapsto> ''1000'']"
    by (simp add: parseFloat_prop_def)
  from r2 have s: "\<not> is_long ?B [''target_contracts'' \<mapsto> ''abc'', ''target_notional'' \<mapsto> ''-2000'']"
    by (simp add: parseFloat_prop_def)
  from g t n a l s show ?thesis by blast
qed

subsection \<open>Gathering the record\<close>

lemma gatherPortfolioData_Undeclared:
  "portfolioData b = Undeclared \<Longrightarrow>
     gatherPortfolioData B b f a = Inl (ReferenceError ''portfolioData is not defined'')"
  by (simp add: gatherPortfolioData_def getPositionCounts_def Let_def)

lemma getPositionCounts_declared:
  "portfolioData b \<noteq> Undeclared \<Longrightarrow> \<exists>c. getPositionCounts B b = Inr c"
  by (cases "portfolioData b") (auto simp: getPositionCounts_def split: prod.splits)

lemma getExposureData_declared:
  "portfolioData b \<noteq> Undeclared \<Longrightarrow> \<exists>e. getExposureData B b = Inr e"
  by (cases "portfolioData b") (simp_all add: getExposureData_def del: split_paired_Ex)

lemma getTopPositions_declared:
  "portfolioData b \<noteq> Undeclared \<Longrightarrow> \<exists>t. getTopPositions B b = Inr t"
  by (cases "portfolioData b") (simp_all add: getTopPositions_def del: split_paired_Ex)

lemma gatherPortfolioData_declared:
  assumes "portfolioData b \<noteq> Undeclared"
  shows "\<exists>logData. gatherPortfolioData B b f a = Inr logData"
proof -
  from assms obtain c e t where
    "getPositionCounts B b = Inr c" "getExposureData B b = Inr e" "getTopPositions B b = Inr t"
    using getPositionCounts_declared getExposureData_declared getTopPositions_declared
    by metis
  then show ?thesis
    by (simp add: gatherPortfolioData_def Let_def split: prod.splits)
qed

lemma gatherPortfolioData_fields:
  assumes "gatherPortfolioData B b f a = Inr logData"
  shows "map fst logData = logHeaders"
    and "get_prop logData ''timestamp'' = Str (toISOString (now b))"
    and "get_prop logData ''portfolio_value'' = Number (getPortfolioValue B b)"
    and "get_prop logData ''daily_pnl'' = Number (getDailyPnL B b)"
    and "portfolioData b \<noteq> Undeclared"
proof -
  from assms obtain c e t where
    c: "getPositionCounts B b = Inr c" and e: "getExposureData B b = Inr e"
    and t: "getTopPositions B b = Inr t"
    by (auto simp: gatherPortfolioData_def Let_def split: sum.splits)
  from assms c e t show "map fst logData = logHeaders"
    by (auto simp: gatherPortfolioData_def Let_def logHeaders_def split: prod.splits)
  from assms c e t show "get_prop logData ''timestamp'' = Str (toISOString (now b))"
    by (auto simp: gatherPortfolioData_def Let_def get_prop_def split: prod.splits)
  from assms c e t show "get_prop logData ''portfolio_value'' = Number (getPortfolioValue B b)"
    by (auto simp: gatherPortfolioData_def Let_def get_prop_def split: prod.splits)
  from assms c e t show "get_prop logData ''daily_pnl'' = Number (getDailyPnL B b)"
    by (auto simp: gatherPortfolioData_def Let_def get_prop_def split: prod.splits)
  from c show "portfolioData b \<noteq> Undeclared"
    by (auto simp: getPositionCounts_def)
qed

lemma read_amount_missing:
  "elements b i = None \<or> (\<exists>t. elements b i = Some t \<and> parseFloat B (strip_chars cs t) = NaN)
     \<Longrightarrow> read_amount B b i cs = Fin 0"
  by (auto simp: read_amount_def or_zero_def)

subsection \<open>The logging cycle\<close>

lemmas gather_eval = gatherPortfolioData_def getPositionCounts_def getExposureData_def
  getTopPositions_def getPerformanceMetrics_def getTotalNotionalData_def getPortfolioValue_def
  getDailyPnL_def getDailyPnLPercent_def getCumulativePnL_def read_amount_def or_zero_def
  strip_chars_def

text \<open>A page without a \<^verbatim>\<open>portfolio-value\<close> element, whose \<^verbatim>\<open>daily-pnl\<close> element reads
  \<^verbatim>\<open>abc\<close>, with an empty portfolio; the built-ins are given by their values on the
  arguments that occur. The record gathered there, and its row.\<close>

lemma gather_example:
  "gatherPortfolioData
     \<lparr> parseFloat = (\<lambda>s. if s = ''5'' then Fin 5 else if s = ''-3'' then Fin (-3)
                        else if s = ''0'' then Fin 0 else if s = ''1000'' then Fin 1000
                        else if s = ''-2000'' then Fin (-2000) else NaN),
       fl = Fin,
       toFixed2 = (\<lambda>n. if n = Fin 40 then ''40.00'' else if n = Fin 1 then ''1.00''
                      else ''0.00''),
       numToString = (\<lambda>n. ''0'') \<rparr>
     \<lparr> now = \<lparr> toISOString = ''2025-09-17T00:05:00.000Z'', toLocaleString_Paris = ''02:05:00'',
               getHours = 2, getMinutes = 5 \<rparr>,
       api_csv_files = NotOk, head_local_csv = NotOk,
       api_csv_content = (\<lambda>f. NotOk), get_local_file = (\<lambda>f. NotOk),
       elements = [''daily-pnl'' \<mapsto> ''abc''],
       portfolioData = Positions [],
       cumulativePnL = Undefined, addPortfolioValueDataPoint = True \<rparr>
     ''lpxd_external_advisors_DF_20250916-2355.csv'' ''post_execution''
   = Inr
     [(''timestamp'', Str ''2025-09-17T00:05:00.000Z''),
      (''date'', Str ''2025-09-17''),
      (''time_utc'', Str ''00:05:00''),
      (''time_paris'', Str ''02:05:00''),
      (''csv_filename'', Str ''lpxd_external_advisors_DF_20250916-2355.csv''),
      (''action'', Str ''post_execution''),
      (''portfolio_value'', Number (Fin 0)),
      (''daily_pnl'', Number (Fin 0)),
      (''daily_pnl_percent'', Number (Fin 0)),
      (''cumulative_pnl'', Number (Fin 0)),
      (''total_positions'', Number (Fin 0)),
      (''long_positions'', Number (Fin 0)),
      (''short_positions'', Number (Fin 0)),
      (''long_notional'', Number (Fin 0)),
      (''short_notional'', Number (Fin 0)),
      (''total_notional_at_entry'', Number (Fin 0)),
      (''gross_exposure'', Number (Fin 0)),
      (''net_exposure'', Number (Fin 0)),
      (''top_long_symbol'', Str ''N/A''),
      (''top_long_weight'', Number (Fin 0)),
      (''top_short_symbol'', Str ''N/A''),
      (''top_short_weight'', Number (Fin 0)),
      (''hit_rate_estimate'', Str ''40.00''),
      (''avg_win'', Str ''0.00''),
      (''avg_loss'', Str ''0.00''),
      (''reliability_ratio'', Str ''1.00'')]"
  by (simp add: gather_eval)

lemma row_example:
  "join_str '','' (map (csv_cell \<lparr> parseFloat = (\<lambda>s. if s = ''5'' then Fin 5 else if s = ''-3'' then Fin (-3)
                        else if s = ''0'' then Fin 0 else if s = ''1000'' then Fin 1000
                        else if s = ''-2000'' then Fin (-2000) else NaN),
       fl = Fin,
       toFixed2 = (\<lambda>n. if n = Fin 40 then ''40.00'' else if n = Fin 1 then ''1.00''
                      else ''0.00''),
       numToString = (\<lambda>n. ''0'') \<rparr>
     [(''timestamp'', Str ''2025-09-17T00:05:00.000Z''),
      (''date'', Str ''2025-09-17''),
      (''time_utc'', Str ''00:05:00''),
      (''time_paris'', Str ''02:05:00''),
      (''csv_filename'', Str ''lpxd_external_advisors_DF_20250916-2355.csv''),
      (''action'', Str ''post_execution''),
      (''portfolio_value'', Number (Fin 0)),
      (''daily_pnl'', Number (Fin 0)),
      (''daily_pnl_percent'', Number (Fin 0)),
      (''cumulative_pnl'', Number (Fin 0)),
      (''total_positions'', Number (Fin 0)),
      (''long_positions'', Number (Fin 0)),
      (''short_positions'', Number (Fin 0)),
      (''long_notional'', Number (Fin 0)),
      (''short_notional'', Number (Fin 0)),
      (''total_notional_at_entry'', Number (Fin 0)),
      (''gross_exposure'', Number (Fin 0)),
      (''net_exposure'', Number (Fin 0)),
      (''top_long_symbol'', Str ''N/A''),
      (''top_long_weight'', Number (Fin 0)),
      (''top_short_symbol'', Str ''N/A''),
      (''top_short_weight'', Number (Fin 0)),
      (''hit_rate_estimate'', Str ''40.00''),
      (''avg_win'', Str ''0.00''),
      (''avg_loss'', Str ''0.00''),
      (''reliability_ratio'', Str ''1.00'')]) logHeaders) @ [CHR 0x0A]
   = ''2025-09-17T00:05:00.000Z,2025-09-17,00:05:00,02:05:00,lpxd_external_advisors_DF_20250916-2355.csv,post_execution,,,,,,,,,,,,,N/A,,N/A,,40.00,0.00,0.00,1.00'' @ [CHR 0x0A]"
  by (simp add: logHeaders_def csv_cell_def get_prop_def join_text_def)

text \<open>
  \<^bold>\<open>C4\<close>, as the claim states it, fails: on the page above the portfolio value is
  missing and the P&L text does not parse, and the record that is logged holds the
  number 0 in both fields, with nothing that marks them as missing.
\<close>

theorem missing_valuation_input_counterexample:
  "elements
     \<lparr> now = \<lparr> toISOString = ''2025-09-17T00:05:00.000Z'', toLocaleString_Paris = ''02:05:00'',
               getHours = 2, getMinutes = 5 \<rparr>,
       api_csv_files = NotOk, head_local_csv = NotOk,
       api_csv_content = (\<lambda>f. NotOk), get_local_file = (\<lambda>f. NotOk),
       elements = [''daily-pnl'' \<mapsto> ''abc''],
       portfolioData = Positions [],
       cumulativePnL = Undefined, addPortfolioValueDataPoint = True \<rparr> ''portfolio-value'' = None \<and>
   map_sum id (\<lambda>logData. (get_prop logData ''portfolio_value'', get_prop logData ''daily_pnl'',
                           map fst logData = logHeaders))
     (gatherPortfolioData
        \<lparr> parseFloat = (\<lambda>s. if s = ''5'' then Fin 5 else if s = ''-3'' then Fin (-3)
                        else if s = ''0'' then Fin 0 else if s = ''1000'' then Fin 1000
                        else if s = ''-2000'' then Fin (-2000) else NaN),
       fl = Fin,
       toFixed2 = (\<lambda>n. if n = Fin 40 then ''40.00'' else if n = Fin 1 then ''1.00''
                      else ''0.00''),
       numToString = (\<lambda>n. ''0'') \<rparr>
        \<lparr> now = \<lparr> toISOString = ''2025-09-17T00:05:00.000Z'', toLocaleString_Paris = ''02:05:00'',
               getHours = 2, getMinutes = 5 \<rparr>,
       api_csv_files = NotOk, head_local_csv = NotOk,
       api_csv_content = (\<lambda>f. NotOk), get_local_file = (\<lambda>f. NotOk),
       elements = [''daily-pnl'' \<mapsto> ''abc''],
       portfolioData = Positions [],
       cumulativePnL = Undefined, addPortfolioValueDataPoint = True \<rparr>
        ''lpxd_external_advisors_DF_20250916-2355.csv'' ''post_execution'')
   = Inr (Number (Fin 0), Number (Fin 0), True)"
  by (simp add: gather_example get_prop_def logHeaders_def)

text \<open>
  \<^bold>\<open>C4\<close>, amended. When the portfolio-value or the P&L element is absent, or its text
  does not parse as a number, the logged record carries the value 0 in that field, which
  is an empty cell of the CSV row; the record has the 26 columns of the log and no
  other, so nothing in it marks the value as missing.
\<close>

theorem missing_valuation_input_logged_as_zero:
  assumes "gatherPortfolioData B b f a = Inr logData"
  shows "map fst logData = logHeaders \<and>
    ((elements b ''portfolio-value'' = None \<or>
      (\<exists>t. elements b ''portfolio-value'' = Some t \<and> parseFloat B (strip_chars ''$,'' t) = NaN))
       \<longrightarrow> get_prop logData ''portfolio_value'' = Number (Fin 0) \<and>
           csv_cell B logData ''portfolio_value'' = []) \<and>
    ((elements b ''daily-pnl'' = None \<or>
      (\<exists>t. elements b ''daily-pnl'' = Some t \<and> parseFloat B (strip_chars ''$,'' t) = NaN))
       \<longrightarrow> get_prop logData ''daily_pnl'' = Number (Fin 0) \<and>
           csv_cell B logData ''daily_pnl'' = [])"
proof (intro conjI impI)
  from assms show "map fst logData = logHeaders"
    by (rule gatherPortfolioData_fields)
next
  assume "elements b ''portfolio-value'' = None \<or>
      (\<exists>t. elements b ''portfolio-value'' = Some t \<and> parseFloat B (strip_chars ''$,'' t) = NaN)"
  then have "getPortfolioValue B b = Fin 0"
    unfolding getPortfolioValue_def by (rule read_amount_missing)
  with gatherPortfolioData_fields(3) [OF assms]
  show v: "get_prop logData ''portfolio_value'' = Number (Fin 0)"
    by simp
  then show "csv_cell B logData ''portfolio_value'' = []"
    by (simp add: csv_cell_def)
next
  assume "elements b ''daily-pnl'' = None \<or>
      (\<exists>t. elements b ''daily-pnl'' = Some t \<and> parseFloat B (strip_chars ''$,'' t) = NaN)"
  then have "getDailyPnL B b = Fin 0"
    unfolding getDailyPnL_def by (rule read_amount_missing)
  with gatherPortfolioData_fields(4) [OF assms]
  show v: "get_prop logData ''daily_pnl'' = Number (Fin 0)"
    by simp
  then show "csv_cell B logData ''daily_pnl'' = []"
    by (simp add: csv_cell_def)
qed

theorem missing_valuation_input_logged_as_zero_witness:
  "gatherPortfolioData
     \<lparr> parseFloat = (\<lambda>s. if s = ''5'' then Fin 5 else if s = ''-3'' then Fin (-3)
                        else if s = ''0'' then Fin 0 else if s = ''1000'' then Fin 1000
                        else if s = ''-2000'' then Fin (-2000) else NaN),
       fl = Fin,
       toFixed2 = (\<lambda>n. if n = Fin 40 then ''40.00'' else if n = Fin 1 then ''1.00''
                      else ''0.00''),
       numToString = (\<lambda>n. ''0'') \<rparr>
     \<lparr> now = \<lparr> toISOString = ''2025-09-17T00:05:00.000Z'', toLocaleString_Paris = ''02:05:00'',
               getHours = 2, getMinutes = 5 \<rparr>,
       api_csv_files = NotOk, head_local_csv = NotOk,
       api_csv_content = (\<lambda>f. NotOk), get_local_file = (\<lambda>f. NotOk),
       elements = [''daily-pnl'' \<mapsto> ''abc''],
       portfolioData = Positions [],
       cumulativePnL = Undefined, addPortfolioValueDataPoint = True \<rparr>
     ''lpxd_external_advisors_DF_20250916-2355.csv'' ''post_execution''
   = Inr
     [(''timestamp'', Str ''2025-09-17T00:05:00.000Z''),
      (''date'', Str ''2025-09-17''),
      (''time_utc'', Str ''00:05:00''),
      (''time_paris'', Str ''02:05:00''),
      (''csv_filename'', Str ''lpxd_external_advisors_DF_20250916-2355.csv''),
      (''action'', Str ''post_execution''),
      (''portfolio_value'', Number (Fin 0)),
      (''daily_pnl'', Number (Fin 0)),
      (''daily_pnl_percent'', Number (Fin 0)),
      (''cumulative_pnl'', Number (Fin 0)),
      (''total_positions'', Number (Fin 0)),
      (''long_positions'', Number (Fin 0)),
      (''short_positions'', Number (Fin 0)),
      (''long_notional'', Number (Fin 0)),
      (''short_notional'', Number (Fin 0)),
      (''total_notional_at_entry'', Number (Fin 0)),
      (''gross_exposure'', Number (Fin 0)),
      (''net_exposure'', Number (Fin 0)),
      (''top_long_symbol'', Str ''N/A''),
      (''top_long_weight'', Number (Fin 0)),
      (''top_short_symbol'', Str ''N/A''),
      (''top_short_weight'', Number (Fin 0)),
      (''hit_rate_estimate'', Str ''40.00''),
      (''avg_win'', Str ''0.00''),
      (''avg_loss'', Str ''0.00''),
      (''reliability_ratio'', Str ''1.00'')] \<and>
   get_prop
     [(''timestamp'', Str ''2025-09-17T00:05:00.000Z''),
      (''date'', Str ''2025-09-17''),
      (''time_utc'', Str ''00:05:00''),
      (''time_paris'', Str ''02:05:00''),
      (''csv_filename'', Str ''lpxd_external_advisors_DF_20250916-2355.csv''),
      (''action'', Str ''post_execution''),
      (''portfolio_value'', Number (Fin 0)),
      (''daily_pnl'', Number (Fin 0)),
      (''daily_pnl_percent'', Number (Fin 0)),
      (''cumulative_pnl'', Number (Fin 0)),
      (''total_positions'', Number (Fin 0)),
      (''long_positions'', Number (Fin 0)),
      (''short_positions'', Number (Fin 0)),
      (''long_notional'', Number (Fin 0)),
      (''short_notional'', Number (Fin 0)),
      (''total_notional_at_entry'', Number (Fin 0)),
      (''gross_exposure'', Number (Fin 0)),
      (''net_exposure'', Number (Fin 0)),
      (''top_long_symbol'', Str ''N/A''),
      (''top_long_weight'', Number (Fin 0)),
      (''top_short_symbol'', Str ''N/A''),
      (''top_short_weight'', Number (Fin 0)),
      (''hit_rate_estimate'', Str ''40.00''),
      (''avg_win'', Str ''0.00''),
      (''avg_loss'', Str ''0.00''),
      (''reliability_ratio'', Str ''1.00'')] ''portfolio_value'' = Number (Fin 0) \<and>
   csv_cell \<lparr> parseFloat = (\<lambda>s. if s = ''5'' then Fin 5 else if s = ''-3'' then Fin (-3)
                        else if s = ''0'' then Fin 0 else if s = ''1000'' then Fin 1000
                        else if s = ''-2000'' then Fin (-2000) else NaN),
       fl = Fin,
       toFixed2 = (\<lambda>n. if n = Fin 40 then ''40.00'' else if n = Fin 1 then ''1.00''
                      else ''0.00''),
       numToString = (\<lambda>n. ''0'') \<rparr>
     [(''timestamp'', Str ''2025-09-17T00:05:00.000Z''),
      (''date'', Str ''2025-09-17''),
      (''time_utc'', Str ''00:05:00''),
      (''time_paris'', Str ''02:05:00''),
      (''csv_filename'', Str ''lpxd_external_advisors_DF_20250916-2355.csv''),
      (''action'', Str ''post_execution''),
      (''portfolio_value'', Number (Fin 0)),
      (''daily_pnl'', Number (Fin 0)),
      (''daily_pnl_percent'', Number (Fin 0)),
      (''cumulative_pnl'', Number (Fin 0)),
      (''total_positions'', Number (Fin 0)),
      (''long_positions'', Number (Fin 0)),
      (''short_positions'', Number (Fin 0)),
      (''long_notional'', Number (Fin 0)),
      (''short_notional'', Number (Fin 0)),
      (''total_notional_at_entry'', Number (Fin 0)),
      (''gross_exposure'', Number (Fin 0)),
      (''net_exposure'', Number (Fin 0)),
      (''top_long_symbol'', Str ''N/A''),
      (''top_long_weight'', Number (Fin 0)),
      (''top_short_symbol'', Str ''N/A''),
      (''top_short_weight'', Number (Fin 0)),
      (''hit_rate_estimate'', Str ''40.00''),
      (''avg_win'', Str ''0.00''),
      (''avg_loss'', Str ''0.00''),
      (''reliability_ratio'', Str ''1.00'')] ''daily_pnl'' = []"
proof -
  let ?B = "\<lparr> parseFloat = (\<lambda>s. if s = ''5'' then Fin 5 else if s = ''-3'' then Fin (-3)
                        else if s = ''0'' then Fin 0 else if s = ''1000'' then Fin 1000
                        else if s = ''-2000'' then Fin (-2000) else NaN),
       fl = Fin,
       toFixed2 = (\<lambda>n. if n = Fin 40 then ''40.00'' else if n = Fin 1 then ''1.00''
                      else ''0.00''),
       numToString = (\<lambda>n. ''0'') \<rparr>"
  let ?b = "\<lparr> now = \<lparr> toISOString = ''2025-09-17T00:05:00.000Z'', toLocaleString_Paris = ''02:05:00'',
               getHours = 2, getMinutes = 5 \<rparr>,
       api_csv_files = NotOk, head_local_csv = NotOk,
       api_csv_content = (\<lambda>f. NotOk), get_local_file = (\<lambda>f. NotOk),
       elements = [''daily-pnl'' \<mapsto> ''abc''],
       portfolioData = Positions [],
       cumulativePnL = Undefined, addPortfolioValueDataPoint = True \<rparr>"
  let ?d = "[(''timestamp'', Str ''2025-09-17T00:05:00.000Z''),
      (''date'', Str ''2025-09-17''),
      (''time_utc'', Str ''00:05:00''),
      (''time_paris'', Str ''02:05:00''),
      (''csv_filename'', Str ''lpxd_external_advisors_DF_20250916-2355.csv''),
      (''action'', Str ''post_execution''),
      (''portfolio_value'', Number (Fin 0)),
      (''daily_pnl'', Number (Fin 0)),
      (''daily_pnl_percent'', Number (Fin 0)),
      (''cumulative_pnl'', Number (Fin 0)),
      (''total_positions'', Number (Fin 0)),
      (''long_positions'', Number (Fin 0)),
      (''short_positions'', Number (Fin 0)),
      (''long_notional'', Number (Fin 0)),
      (''short_notional'', Number (Fin 0)),
      (''total_notional_at_entry'', Number (Fin 0)),
      (''gross_exposure'', Number (Fin 0)),
      (''net_exposure'', Number (Fin 0)),
      (''top_long_symbol'', Str ''N/A''),
      (''top_long_weight'', Number (Fin 0)),
      (''top_short_symbol'', Str ''N/A''),
      (''top_short_weight'', Number (Fin 0)),
      (''hit_rate_estimate'', Str ''40.00''),
      (''avg_win'', Str ''0.00''),
      (''avg_loss'', Str ''0.00''),
      (''reliability_ratio'', Str ''1.00'')]"
  have g: "gatherPortfolioData ?B ?b ''lpxd_external_advisors_DF_20250916-2355.csv'' ''post_execution'' = Inr ?d"
    by (rule gather_example)
  have m1: "elements ?b ''portfolio-value'' = None \<or>
      (\<exists>t. elements ?b ''portfolio-value'' = Some t \<and> parseFloat ?B (strip_chars ''$,'' t) = NaN)"
    by simp
  have m2: "elements ?b ''daily-pnl'' = None \<or>
      (\<exists>t. elements ?b ''daily-pnl'' = Some t \<and> parseFloat ?B (strip_chars ''$,'' t) = NaN)"
    by (simp add: strip_chars_def)
  note r = missing_valuation_input_logged_as_zero [OF g]
  from r m1 have a: "get_prop ?d ''portfolio_value'' = Number (Fin 0)"
    by blast
  from r m2 have b: "csv_cell ?B ?d ''daily_pnl'' = []"
    by blast
  from g a b show ?thesis by blast
qed

lemma appendToLog_csv_log:
  "csv_log (appendToLog B logData out) =
     csv_log out @ [(join_str '','' (map (csv_cell B logData) logHeaders) @ [CHR 0x0A], logData)]"
  by (simp add: appendToLog_def)

text \<open>
  \<^bold>\<open>C5\<close>, as the claim states it, fails: the cycle prints the row and does nothing
  else with it. Here the log file holds its header line before the cycle; the cycle
  succeeds, and the log file, as \<open>getLogContent\<close> reads it back, holds the header line
  and no row after it.
\<close>

theorem log_file_not_written_counterexample:
  "logPostExecution
     \<lparr> parseFloat = (\<lambda>s. if s = ''5'' then Fin 5 else if s = ''-3'' then Fin (-3)
                        else if s = ''0'' then Fin 0 else if s = ''1000'' then Fin 1000
                        else if s = ''-2000'' then Fin (-2000) else NaN),
       fl = Fin,
       toFixed2 = (\<lambda>n. if n = Fin 40 then ''40.00'' else if n = Fin 1 then ''1.00''
                      else ''0.00''),
       numToString = (\<lambda>n. ''0'') \<rparr>
     \<lparr> now = \<lparr> toISOString = ''2025-09-17T00:05:00.000Z'', toLocaleString_Paris = ''02:05:00'',
               getHours = 2, getMinutes = 5 \<rparr>,
       api_csv_files = NotOk, head_local_csv = NotOk,
       api_csv_content = (\<lambda>f. NotOk), get_local_file = (\<lambda>f. NotOk),
       elements = [''daily-pnl'' \<mapsto> ''abc''],
       portfolioData = Positions [],
       cumulativePnL = Undefined, addPortfolioValueDataPoint = True \<rparr>
     ''lpxd_external_advisors_DF_20250916-2355.csv''
     \<lparr> csv_log = [], chart = [], log_file = Ok (join_str '','' logHeaders @ [CHR 0x0A]) \<rparr>
   = Inr \<lparr> csv_log =
             [(''2025-09-17T00:05:00.000Z,2025-09-17,00:05:00,02:05:00,lpxd_external_advisors_DF_20250916-2355.csv,post_execution,,,,,,,,,,,,,N/A,,N/A,,40.00,0.00,0.00,1.00'' @ [CHR 0x0A],
     [(''timestamp'', Str ''2025-09-17T00:05:00.000Z''),
      (''date'', Str ''2025-09-17''),
      (''time_utc'', Str ''00:05:00''),
      (''time_paris'', Str ''02:05:00''),
      (''csv_filename'', Str ''lpxd_external_advisors_DF_20250916-2355.csv''),
      (''action'', Str ''post_execution''),
      (''portfolio_value'', Number (Fin 0)),
      (''daily_pnl'', Number (Fin 0)),
      (''daily_pnl_percent'', Number (Fin 0)),
      (''cumulative_pnl'', Number (Fin 0)),
      (''total_positions'', Number (Fin 0)),
      (''long_positions'', Number (Fin 0)),
      (''short_positions'', Number (Fin 0)),
      (''long_notional'', Number (Fin 0)),
      (''short_notional'', Number (Fin 0)),
      (''total_notional_at_entry'', Number (Fin 0)),
      (''gross_exposure'', Number (Fin 0)),
      (''net_exposure'', Number (Fin 0)),
      (''top_long_symbol'', Str ''N/A''),
      (''top_long_weight'', Number (Fin 0)),
      (''top_short_symbol'', Str ''N/A''),
      (''top_short_weight'', Number (Fin 0)),
      (''hit_rate_estimate'', Str ''40.00''),
      (''avg_win'', Str ''0.00''),
      (''avg_loss'', Str ''0.00''),
      (''reliability_ratio'', Str ''1.00'')])],
           chart = [], log_file = Ok (join_str '','' logHeaders @ [CHR 0x0A]) \<rparr> \<and>
   getLogContent
     \<lparr> csv_log =
             [(''2025-09-17T00:05:00.000Z,2025-09-17,00:05:00,02:05:00,lpxd_external_advisors_DF_20250916-2355.csv,post_execution,,,,,,,,,,,,,N/A,,N/A,,40.00,0.00,0.00,1.00'' @ [CHR 0x0A],
     [(''timestamp'', Str ''2025-09-17T00:05:00.000Z''),
      (''date'', Str ''2025-09-17''),
      (''time_utc'', Str ''00:05:00''),
      (''time_paris'', Str ''02:05:00''),
      (''csv_filename'', Str ''lpxd_external_advisors_DF_20250916-2355.csv''),
      (''action'', Str ''post_execution''),
      (''portfolio_value'', Number (Fin 0)),
      (''daily_pnl'', Number (Fin 0)),
      (''daily_pnl_percent'', Number (Fin 0)),
      (''cumulative_pnl'', Number (Fin 0)),
      (''total_positions'', Number (Fin 0)),
      (''long_positions'', Number (Fin 0)),
      (''short_positions'', Number (Fin 0)),
      (''long_notional'', Number (Fin 0)),
      (''short_notional'', Number (Fin 0)),
      (''total_notional_at_entry'', Number (Fin 0)),
      (''gross_exposure'', Number (Fin 0)),
      (''net_exposure'', Number (Fin 0)),
      (''top_long_symbol'', Str ''N/A''),
      (''top_long_weight'', Number (Fin 0)),
      (''top_short_symbol'', Str ''N/A''),
      (''top_short_weight'', Number (Fin 0)),
      (''hit_rate_estimate'', Str ''40.00''),
      (''avg_win'', Str ''0.00''),
      (''avg_loss'', Str ''0.00''),
      (''reliability_ratio'', Str ''1.00'')])],
           chart = [], log_file = Ok (join_str '','' logHeaders @ [CHR 0x0A]) \<rparr>
   = Some (join_str '','' logHeaders @ [CHR 0x0A])"
  by (simp add: logPostExecution_def gather_example appendToLog_def row_example get_prop_def
        getLogContent_def)

text \<open>
  \<^bold>\<open>C5\<close>, amended. A logging cycle that succeeds, \<open>logPreExecution\<close> or
  \<open>logPostExecution\<close>, prints exactly one row, with its record, on the console: what has
  been printed after the cycle is what had been printed before it followed by the row of
  the record gathered in this cycle, and nothing printed before is changed or removed.
  The cycle does not write the log file: its content after the cycle is its content
  before.
\<close>

theorem logging_cycle_prints_one_row:
  "(logPreExecution B b f out = Inr out' \<longrightarrow>
      (\<exists>logData. gatherPortfolioData B b f ''pre_execution'' = Inr logData \<and>
         csv_log out' =
           csv_log out @
             [(join_str '','' (map (csv_cell B logData) logHeaders) @ [CHR 0x0A], logData)]) \<and>
      length (csv_log out') = length (csv_log out) + 1 \<and>
      take (length (csv_log out)) (csv_log out') = csv_log out \<and>
      log_file out' = log_file out \<and> getLogContent out' = getLogContent out) \<and>
   (logPostExecution B b f out = Inr out' \<longrightarrow>
      (\<exists>logData. gatherPortfolioData B b f ''post_execution'' = Inr logData \<and>
         csv_log out' =
           csv_log out @
             [(join_str '','' (map (csv_cell B logData) logHeaders) @ [CHR 0x0A], logData)]) \<and>
      length (csv_log out') = length (csv_log out) + 1 \<and>
      take (length (csv_log out)) (csv_log out') = csv_log out \<and>
      log_file out' = log_file out \<and> getLogContent out' = getLogContent out)"
proof (intro conjI impI)
  assume pre: "logPreExecution B b f out = Inr out'"
  then obtain logData where g: "gatherPortfolioData B b f ''pre_execution'' = Inr logData"
    and o: "out' = appendToLog B logData out"
    by (auto simp: logPreExecution_def split: sum.splits)
  from o have l: "csv_log out' =
      csv_log out @ [(join_str '','' (map (csv_cell B logData) logHeaders) @ [CHR 0x0A], logData)]"
    by (simp add: appendToLog_csv_log)
  from g l show "\<exists>logData. gatherPortfolioData B b f ''pre_execution'' = Inr logData \<and>
         csv_log out' =
           csv_log out @
             [(join_str '','' (map (csv_cell B logData) logHeaders) @ [CHR 0x0A], logData)]"
    by blast
  from l show "length (csv_log out') = length (csv_log out) + 1" by simp
  from l show "take (length (csv_log out)) (csv_log out') = csv_log out" by simp
  from o show w: "log_file out' = log_file out" by (simp add: appendToLog_def)
  then show "getLogContent out' = getLogContent out" by (simp add: getLogContent_def)
next
  assume post: "logPostExecution B b f out = Inr out'"
  then obtain logData where g: "gatherPortfolioData B b f ''post_execution'' = Inr logData"
    and o: "csv_log out' = csv_log (appendToLog B logData out)"
    and w: "log_file out' = log_file (appendToLog B logData out)"
    by (auto simp: logPostExecution_def Let_def split: sum.splits if_splits)
  from o have l: "csv_log out' =
      csv_log out @ [(join_str '','' (map (csv_cell B logData) logHeaders) @ [CHR 0x0A], logData)]"
    by (simp add: appendToLog_csv_log)
  from g l show "\<exists>logData. gatherPortfolioData B b f ''post_execution'' = Inr logData \<and>
         csv_log out' =
           csv_log out @
             [(join_str '','' (map (csv_cell B logData) logHeaders) @ [CHR 0x0A], logData)]"
    by blast
  from l show "length (csv_log out') = length (csv_log out) + 1" by simp
  from l show "take (length (csv_log out)) (csv_log out') = csv_log out" by simp
  from w show f: "log_file out' = log_file out" by (simp add: appendToLog_def)
  then show "getLogContent out' = getLogContent out" by (simp add: getLogContent_def)
qed

theorem logging_cycle_prints_one_row_witness:
  "logPostExecution
     \<lparr> parseFloat = (\<lambda>s. if s = ''5'' then Fin 5 else if s = ''-3'' then Fin (-3)
                        else if s = ''0'' then Fin 0 else if s = ''1000'' then Fin 1000
                        else if s = ''-2000'' then Fin (-2000) else NaN),
       fl = Fin,
       toFixed2 = (\<lambda>n. if n = Fin 40 then ''40.00'' else if n = Fin 1 then ''1.00''
                      else ''0.00''),
       numToString = (\<lambda>n. ''0'') \<rparr>
     \<lparr> now = \<lparr> toISOString = ''2025-09-17T00:05:00.000Z'', toLocaleString_Paris = ''02:05:00'',
               getHours = 2, getMinutes = 5 \<rparr>,
       api_csv_files = NotOk, head_local_csv = NotOk,
       api_csv_content = (\<lambda>f. NotOk), get_local_file = (\<lambda>f. NotOk),
       elements = [''daily-pnl'' \<mapsto> ''abc''],
       portfolioData = Positions [],
       cumulativePnL = Undefined, addPortfolioValueDataPoint = True \<rparr>
     ''lpxd_external_advisors_DF_20250916-2355.csv''
     \<lparr> csv_log = [(''earlier row'', [])], chart = [], log_file = Ok (join_str '','' logHeaders @ [CHR 0x0A]) \<rparr>
   = Inr \<lparr> csv_log =
             [(''earlier row'', []),
              (''2025-09-17T00:05:00.000Z,2025-09-17,00:05:00,02:05:00,lpxd_external_advisors_DF_20250916-2355.csv,post_execution,,,,,,,,,,,,,N/A,,N/A,,40.00,0.00,0.00,1.00'' @ [CHR 0x0A],
     [(''timestamp'', Str ''2025-09-17T00:05:00.000Z''),
      (''date'', Str ''2025-09-17''),
      (''time_utc'', Str ''00:05:00''),
      (''time_paris'', Str ''02:05:00''),
      (''csv_filename'', Str ''lpxd_external_advisors_DF_20250916-2355.csv''),
      (''action'', Str ''post_execution''),
      (''portfolio_value'', Number (Fin 0)),
      (''daily_pnl'', Number (Fin 0)),
      (''daily_pnl_percent'', Number (Fin 0)),
      (''cumulative_pnl'', Number (Fin 0)),
      (''total_positions'', Number (Fin 0)),
      (''long_positions'', Number (Fin 0)),
      (''short_positions'', Number (Fin 0)),
      (''long_notional'', Number (Fin 0)),
      (''short_notional'', Number (Fin 0)),
      (''total_notional_at_entry'', Number (Fin 0)),
      (''gross_exposure'', Number (Fin 0)),
      (''net_exposure'', Number (Fin 0)),
      (''top_long_symbol'', Str ''N/A''),
      (''top_long_weight'', Number (Fin 0)),
      (''top_short_symbol'', Str ''N/A''),
      (''top_short_weight'', Number (Fin 0)),
      (''hit_rate_estimate'', Str ''40.00''),
      (''avg_win'', Str ''0.00''),
      (''avg_loss'', Str ''0.00''),
      (''reliability_ratio'', Str ''1.00'')])],
           chart = [], log_file = Ok (join_str '','' logHeaders @ [CHR 0x0A]) \<rparr> \<and>
   logPreExecution
     \<lparr> parseFloat = (\<lambda>s. if s = ''5'' then Fin 5 else if s = ''-3'' then Fin (-3)
                        else if s = ''0'' then Fin 0 else if s = ''1000'' then Fin 1000
                        else if s = ''-2000'' then Fin (-2000) else NaN),
       fl = Fin,
       toFixed2 = (\<lambda>n. if n = Fin 40 then ''40.00'' else if n = Fin 1 then ''1.00''
                      else ''0.00''),
       numToString = (\<lambda>n. ''0'') \<rparr>
     \<lparr> now = \<lparr> toISOString = ''2025-09-17T00:05:00.000Z'', toLocaleString_Paris = ''02:05:00'',
               getHours = 2, getMinutes = 5 \<rparr>,
       api_csv_files = NotOk, head_local_csv = NotOk,
       api_csv_content = (\<lambda>f. NotOk), get_local_file = (\<lambda>f. NotOk),
       elements = [''daily-pnl'' \<mapsto> ''abc''],
       portfolioData = Positions [],
       cumulativePnL = Undefined, addPortfolioValueDataPoint = True \<rparr>
     ''lpxd_external_advisors_DF_20250916-2355.csv''
     \<lparr> csv_log = [(''earlier row'', [])], chart = [], log_file = Ok (join_str '','' logHeaders @ [CHR 0x0A]) \<rparr>
   = Inr \<lparr> csv_log =
             [(''earlier row'', []),
              (''2025-09-17T00:05:00.000Z,2025-09-17,00:05:00,02:05:00,lpxd_external_advisors_DF_20250916-2355.csv,pre_execution,,,,,,,,,,,,,N/A,,N/A,,40.00,0.00,0.00,1.00'' @ [CHR 0x0A],
     [(''timestamp'', Str ''2025-09-17T00:05:00.000Z''),
      (''date'', Str ''2025-09-17''),
      (''time_utc'', Str ''00:05:00''),
      (''time_paris'', Str ''02:05:00''),
      (''csv_filename'', Str ''lpxd_external_advisors_DF_20250916-2355.csv''),
      (''action'', Str ''pre_execution''),
      (''portfolio_value'', Number (Fin 0)),
      (''daily_pnl'', Number (Fin 0)),
      (''daily_pnl_percent'', Number (Fin 0)),
      (''cumulative_pnl'', Number (Fin 0)),
      (''total_positions'', Number (Fin 0)),
      (''long_positions'', Number (Fin 0)),
      (''short_positions'', Number (Fin 0)),
      (''long_notional'', Number (Fin 0)),
      (''short_notional'', Number (Fin 0)),
      (''total_notional_at_entry'', Number (Fin 0)),
      (''gross_exposure'', Number (Fin 0)),
      (''net_exposure'', Number (Fin 0)),
      (''top_long_symbol'', Str ''N/A''),
      (''top_long_weight'', Number (Fin 0)),
      (''top_short_symbol'', Str ''N/A''),
      (''top_short_weight'', Number (Fin 0)),
      (''hit_rate_estimate'', Str ''40.00''),
      (''avg_win'', Str ''0.00''),
      (''avg_loss'', Str ''0.00''),
      (''reliability_ratio'', Str ''1.00'')])],
           chart = [], log_file = Ok (join_str '','' logHeaders @ [CHR 0x0A]) \<rparr> \<and>
   length [(''earlier row'', [] :: log_data),
              (''2025-09-17T00:05:00.000Z,2025-09-17,00:05:00,02:05:00,lpxd_external_advisors_DF_20250916-2355.csv,post_execution,,,,,,,,,,,,,N/A,,N/A,,40.00,0.00,0.00,1.00'' @ [CHR 0x0A],
     [(''timestamp'', Str ''2025-09-17T00:05:00.000Z''),
      (''date'', Str ''2025-09-17''),
      (''time_utc'', Str ''00:05:00''),
      (''time_paris'', Str ''02:05:00''),
      (''csv_filename'', Str ''lpxd_external_advisors_DF_20250916-2355.csv''),
      (''action'', Str ''post_execution''),
      (''portfolio_value'', Number (Fin 0)),
      (''daily_pnl'', Number (Fin 0)),
      (''daily_pnl_percent'', Number (Fin 0)),
      (''cumulative_pnl'', Number (Fin 0)),
      (''total_positions'', Number (Fin 0)),
      (''long_positions'', Number (Fin 0)),
      (''short_positions'', Number (Fin 0)),
      (''long_notional'', Number (Fin 0)),
      (''short_notional'', Number (Fin 0)),
      (''total_notional_at_entry'', Number (Fin 0)),
      (''gross_exposure'', Number (Fin 0)),
      (''net_exposure'', Number (Fin 0)),
      (''top_long_symbol'', Str ''N/A''),
      (''top_long_weight'', Number (Fin 0)),
      (''top_short_symbol'', Str ''N/A''),
      (''top_short_weight'', Number (Fin 0)),
      (''hit_rate_estimate'', Str ''40.00''),
      (''avg_win'', Str ''0.00''),
      (''avg_loss'', Str ''0.00''),
      (''reliability_ratio'', Str ''1.00'')])] = length [(''earlier row'', [] :: log_data)] + 1 \<and>
   take (length [(''earlier row'', [] :: log_data)])
     [(''earlier row'', []),
              (''2025-09-17T00:05:00.000Z,2025-09-17,00:05:00,02:05:00,lpxd_external_advisors_DF_20250916-2355.csv,pre_execution,,,,,,,,,,,,,N/A,,N/A,,40.00,0.00,0.00,1.00'' @ [CHR 0x0A],
     [(''timestamp'', Str ''2025-09-17T00:05:00.000Z''),
      (''date'', Str ''2025-09-17''),
      (''time_utc'', Str ''00:05:00''),
      (''time_paris'', Str ''02:05:00''),
      (''csv_filename'', Str ''lpxd_external_advisors_DF_20250916-2355.csv''),
      (''action'', Str ''pre_execution''),
      (''portfolio_value'', Number (Fin 0)),
      (''daily_pnl'', Number (Fin 0)),
      (''daily_pnl_percent'', Number (Fin 0)),
      (''cumulative_pnl'', Number (Fin 0)),
      (''total_positions'', Number (Fin 0)),
      (''long_positions'', Number (Fin 0)),
      (''short_positions'', Number (Fin 0)),
      (''long_notional'', Number (Fin 0)),
      (''short_notional'', Number (Fin 0)),
      (''total_notional_at_entry'', Number (Fin 0)),
      (''gross_exposure'', Number (Fin 0)),
      (''net_exposure'', Number (Fin 0)),
      (''top_long_symbol'', Str ''N/A''),
      (''top_long_weight'', Number (Fin 0)),
      (''top_short_symbol'', Str ''N/A''),
      (''top_short_weight'', Number (Fin 0)),
      (''hit_rate_estimate'', Str ''40.00''),
      (''avg_win'', Str ''0.00''),
      (''avg_loss'', Str ''0.00''),
      (''reliability_ratio'', Str ''1.00'')])] = [(''earlier row'', [])] \<and>
   getLogContent \<lparr> csv_log = [(''earlier row'', [])], chart = [], log_file = Ok (join_str '','' logHeaders @ [CHR 0x0A]) \<rparr> =
     Some (join_str '','' logHeaders @ [CHR 0x0A])"
proof -
  let ?B = "\<lparr> parseFloat = (\<lambda>s. if s = ''5'' then Fin 5 else if s = ''-3'' then Fin (-3)
                        else if s = ''0'' then Fin 0 else if s = ''1000'' then Fin 1000
                        else if s = ''-2000'' then Fin (-2000) else NaN),
       fl = Fin,
       toFixed2 = (\<lambda>n. if n = Fin 40 then ''40.00'' else if n = Fin 1 then ''1.00''
                      else ''0.00''),
       numToString = (\<lambda>n. ''0'') \<rparr>"
  let ?b = "\<lparr> now = \<lparr> toISOString = ''2025-09-17T00:05:00.000Z'', toLocaleString_Paris = ''02:05:00'',
               getHours = 2, getMinutes = 5 \<rparr>,
       api_csv_files = NotOk, head_local_csv = NotOk,
       api_csv_content = (\<lambda>f. NotOk), get_local_file = (\<lambda>f. NotOk),
       elements = [''daily-pnl'' \<mapsto> ''abc''],
       portfolioData = Positions [],
       cumulativePnL = Undefined, addPortfolioValueDataPoint = True \<rparr>"
  let ?d = "[(''timestamp'', Str ''2025-09-17T00:05:00.000Z''),
      (''date'', Str ''2025-09-17''),
      (''time_utc'', Str ''00:05:00''),
      (''time_paris'', Str ''02:05:00''),
      (''csv_filename'', Str ''lpxd_external_advisors_DF_20250916-2355.csv''),
      (''action'', Str ''post_execution''),
      (''portfolio_value'', Number (Fin 0)),
      (''daily_pnl'', Number (Fin 0)),
      (''daily_pnl_percent'', Number (Fin 0)),
      (''cumulative_pnl'', Number (Fin 0)),
      (''total_positions'', Number (Fin 0)),
      (''long_positions'', Number (Fin 0)),
      (''short_positions'', Number (Fin 0)),
      (''long_notional'', Number (Fin 0)),
      (''short_notional'', Number (Fin 0)),
      (''total_notional_at_entry'', Number (Fin 0)),
      (''gross_exposure'', Number (Fin 0)),
      (''net_exposure'', Number (Fin 0)),
      (''top_long_symbol'', Str ''N/A''),
      (''top_long_weight'', Number (Fin 0)),
      (''top_short_symbol'', Str ''N/A''),
      (''top_short_weight'', Number (Fin 0)),
      (''hit_rate_estimate'', Str ''40.00''),
      (''avg_win'', Str ''0.00''),
      (''avg_loss'', Str ''0.00''),
      (''reliability_ratio'', Str ''1.00'')]"
  let ?e = "[(''timestamp'', Str ''2025-09-17T00:05:00.000Z''),
      (''date'', Str ''2025-09-17''),
      (''time_utc'', Str ''00:05:00''),
      (''time_paris'', Str ''02:05:00''),
      (''csv_filename'', Str ''lpxd_external_advisors_DF_20250916-2355.csv''),
      (''action'', Str ''pre_execution''),
      (''portfolio_value'', Number (Fin 0)),
      (''daily_pnl'', Number (Fin 0)),
      (''daily_pnl_percent'', Number (Fin 0)),
      (''cumulative_pnl'', Number (Fin 0)),
      (''total_positions'', Number (Fin 0)),
      (''long_positions'', Number (Fin 0)),
      (''short_positions'', Number (Fin 0)),
      (''long_notional'', Number (Fin 0)),
      (''short_notional'', Number (Fin 0)),
      (''total_notional_at_entry'', Number (Fin 0)),
      (''gross_exposure'', Number (Fin 0)),
      (''net_exposure'', Number (Fin 0)),
      (''top_long_symbol'', Str ''N/A''),
      (''top_long_weight'', Number (Fin 0)),
      (''top_short_symbol'', Str ''N/A''),
      (''top_short_weight'', Number (Fin 0)),
      (''hit_rate_estimate'', Str ''40.00''),
      (''avg_win'', Str ''0.00''),
      (''avg_loss'', Str ''0.00''),
      (''reliability_ratio'', Str ''1.00'')]"
  let ?out = "\<lparr> csv_log = [(''earlier row'', [])], chart = [], log_file = Ok (join_str '','' logHeaders @ [CHR 0x0A]) \<rparr>"
  let ?post = "\<lparr> csv_log = [(''earlier row'', []), (''2025-09-17T00:05:00.000Z,2025-09-17,00:05:00,02:05:00,lpxd_external_advisors_DF_20250916-2355.csv,post_execution,,,,,,,,,,,,,N/A,,N/A,,40.00,0.00,0.00,1.00'' @ [CHR 0x0A], ?d)], chart = [], log_file = Ok (join_str '','' logHeaders @ [CHR 0x0A]) \<rparr>"
  let ?pre = "\<lparr> csv_log = [(''earlier row'', []), (''2025-09-17T00:05:00.000Z,2025-09-17,00:05:00,02:05:00,lpxd_external_advisors_DF_20250916-2355.csv,pre_execution,,,,,,,,,,,,,N/A,,N/A,,40.00,0.00,0.00,1.00'' @ [CHR 0x0A], ?e)], chart = [], log_file = Ok (join_str '','' logHeaders @ [CHR 0x0A]) \<rparr>"
  have p: "logPostExecution ?B ?b ''lpxd_external_advisors_DF_20250916-2355.csv'' ?out = Inr ?post"
    by (simp add: logPostExecution_def gather_example appendToLog_def row_example get_prop_def)
  have g: "gatherPortfolioData ?B ?b ''lpxd_external_advisors_DF_20250916-2355.csv'' ''pre_execution'' = Inr ?e"
    by (simp add: gather_eval)
  have w: "join_str '','' (map (csv_cell ?B ?e) logHeaders) @ [CHR 0x0A] = ''2025-09-17T00:05:00.000Z,2025-09-17,00:05:00,02:05:00,lpxd_external_advisors_DF_20250916-2355.csv,pre_execution,,,,,,,,,,,,,N/A,,N/A,,40.00,0.00,0.00,1.00'' @ [CHR 0x0A]"
    by (simp add: logHeaders_def csv_cell_def get_prop_def join_text_def)
  from g w have q: "logPreExecution ?B ?b ''lpxd_external_advisors_DF_20250916-2355.csv'' ?out = Inr ?pre"
    by (simp add: logPreExecution_def appendToLog_def)
  note r1 = logging_cycle_prints_one_row [of ?B ?b "''lpxd_external_advisors_DF_20250916-2355.csv''" ?out ?post, THEN conjunct2, THEN mp, OF p]
  note r2 = logging_cycle_prints_one_row [of ?B ?b "''lpxd_external_advisors_DF_20250916-2355.csv''" ?out ?pre, THEN conjunct1, THEN mp, OF q]
  from r1 have "length (csv_log ?post) = length (csv_log ?out) + 1"
    by (rule conjunct2 [THEN conjunct1])
  then have a: "length [(''earlier row'', [] :: log_data), (''2025-09-17T00:05:00.000Z,2025-09-17,00:05:00,02:05:00,lpxd_external_advisors_DF_20250916-2355.csv,post_execution,,,,,,,,,,,,,N/A,,N/A,,40.00,0.00,0.00,1.00'' @ [CHR 0x0A], ?d)] =
      length [(''earlier row'', [] :: log_data)] + 1"
    by (simp only: sinks.simps)
  from r2 have "take (length (csv_log ?out)) (csv_log ?pre) = csv_log ?out"
    by (rule conjunct2 [THEN conjunct2, THEN conjunct1])
  then have b: "take (length [(''earlier row'', [] :: log_data)])
      [(''earlier row'', []), (''2025-09-17T00:05:00.000Z,2025-09-17,00:05:00,02:05:00,lpxd_external_advisors_DF_20250916-2355.csv,pre_execution,,,,,,,,,,,,,N/A,,N/A,,40.00,0.00,0.00,1.00'' @ [CHR 0x0A], ?e)] = [(''earlier row'', [])]"
    by (simp only: sinks.simps)
  from r1 have "getLogContent ?post = getLogContent ?out"
    by (rule conjunct2 [THEN conjunct2, THEN conjunct2, THEN conjunct2])
  then have c: "getLogContent ?out = Some (join_str '','' logHeaders @ [CHR 0x0A])"
    by (simp add: getLogContent_def)
  from p q a b c show ?thesis by (intro conjI)
qed

text \<open>The timestamps in the log after a run of cycles: those already there, followed by
  the clock readings of the cycles that did not throw, in the order of the cycles.\<close>

lemma timestamps_run_cycle:
  "timestamps (run_cycle B c out) =
     timestamps out @
       (if portfolioData (fst (snd c)) \<noteq> Undeclared then [toISOString (now (fst (snd c)))] else [])"
proof -
  obtain kind b f where c: "c = (kind, b, f)" by (cases c) auto
  let ?a = "case kind of PreExecution \<Rightarrow> ''pre_execution'' | PostExecution \<Rightarrow> ''post_execution''"
  show ?thesis
  proof (cases "portfolioData b = Undeclared")
    case True
    then show ?thesis
      by (cases kind)
         (simp_all add: c run_cycle_def logPreExecution_def logPostExecution_def
            gatherPortfolioData_Undeclared)
  next
    case False
    then obtain logData where g: "gatherPortfolioData B b f ?a = Inr logData"
      using gatherPortfolioData_declared by blast
    then have t: "timestamp_of logData = toISOString (now b)"
      by (simp add: timestamp_of_def gatherPortfolioData_fields(2))
    from g False t show ?thesis
      by (cases kind)
         (simp_all add: c run_cycle_def logPreExecution_def logPostExecution_def Let_def
            timestamps_def appendToLog_csv_log)
  qed
qed

lemma timestamps_run_cycles:
  "timestamps (run_cycles B cs out) =
     timestamps out @
       map (\<lambda>c. toISOString (now (fst (snd c))))
         (filter (\<lambda>c. portfolioData (fst (snd c)) \<noteq> Undeclared) cs)"
  unfolding run_cycles_def
  by (induction cs arbitrary: out) (simp_all add: timestamps_run_cycle)

text \<open>
  \<^bold>\<open>C6\<close>, as the claim states it, fails: a pre-execution and a post-execution cycle that
  read the same value of the clock append two records with the same timestamp. The logger
  never compares a timestamp with the one before.
\<close>

theorem log_timestamps_counterexample:
  "timestamps (run_cycles
     \<lparr> parseFloat = (\<lambda>s. if s = ''5'' then Fin 5 else if s = ''-3'' then Fin (-3)
                        else if s = ''0'' then Fin 0 else if s = ''1000'' then Fin 1000
                        else if s = ''-2000'' then Fin (-2000) else NaN),
       fl = Fin,
       toFixed2 = (\<lambda>n. if n = Fin 40 then ''40.00'' else if n = Fin 1 then ''1.00''
                      else ''0.00''),
       numToString = (\<lambda>n. ''0'') \<rparr>
     [(PreExecution,
       \<lparr> now = \<lparr> toISOString = ''2025-09-17T00:05:00.000Z'', toLocaleString_Paris = ''02:05:00'',
               getHours = 2, getMinutes = 5 \<rparr>,
       api_csv_files = NotOk, head_local_csv = NotOk,
       api_csv_content = (\<lambda>f. NotOk), get_local_file = (\<lambda>f. NotOk),
       elements = [''daily-pnl'' \<mapsto> ''abc''],
       portfolioData = Positions [],
       cumulativePnL = Undefined, addPortfolioValueDataPoint = True \<rparr>,
       ''lpxd_external_advisors_DF_20250916-2355.csv''),
      (PostExecution,
       \<lparr> now = \<lparr> toISOString = ''2025-09-17T00:05:00.000Z'', toLocaleString_Paris = ''02:05:00'',
               getHours = 2, getMinutes = 5 \<rparr>,
       api_csv_files = NotOk, head_local_csv = NotOk,
       api_csv_content = (\<lambda>f. NotOk), get_local_file = (\<lambda>f. NotOk),
       elements = [''daily-pnl'' \<mapsto> ''abc''],
       portfolioData = Positions [],
       cumulativePnL = Undefined, addPortfolioValueDataPoint = True \<rparr>,
       ''lpxd_external_advisors_DF_20250916-2355.csv'')]
     \<lparr> csv_log = [], chart = [], log_file = NotOk \<rparr>)
   = [''2025-09-17T00:05:00.000Z'', ''2025-09-17T00:05:00.000Z''] \<and>
   \<not> sorted_wrt (<) (timestamps (run_cycles
     \<lparr> parseFloat = (\<lambda>s. if s = ''5'' then Fin 5 else if s = ''-3'' then Fin (-3)
                        else if s = ''0'' then Fin 0 else if s = ''1000'' then Fin 1000
                        else if s = ''-2000'' then Fin (-2000) else NaN),
       fl = Fin,
       toFixed2 = (\<lambda>n. if n = Fin 40 then ''40.00'' else if n = Fin 1 then ''1.00''
                      else ''0.00''),
       numToString = (\<lambda>n. ''0'') \<rparr>
     [(PreExecution,
       \<lparr> now = \<lparr> toISOString = ''2025-09-17T00:05:00.000Z'', toLocaleString_Paris = ''02:05:00'',
               getHours = 2, getMinutes = 5 \<rparr>,
       api_csv_files = NotOk, head_local_csv = NotOk,
       api_csv_content = (\<lambda>f. NotOk), get_local_file = (\<lambda>f. NotOk),
       elements = [''daily-pnl'' \<mapsto> ''abc''],
       portfolioData = Positions [],
       cumulativePnL = Undefined, addPortfolioValueDataPoint = True \<rparr>,
       ''lpxd_external_advisors_DF_20250916-2355.csv''),
      (PostExecution,
       \<lparr> now = \<lparr> toISOString = ''2025-09-17T00:05:00.000Z'', toLocaleString_Paris = ''02:05:00'',
               getHours = 2, getMinutes = 5 \<rparr>,
       api_csv_files = NotOk, head_local_csv = NotOk,
       api_csv_content = (\<lambda>f. NotOk), get_local_file = (\<lambda>f. NotOk),
       elements = [''daily-pnl'' \<mapsto> ''abc''],
       portfolioData = Positions [],
       cumulativePnL = Undefined, addPortfolioValueDataPoint = True \<rparr>,
       ''lpxd_external_advisors_DF_20250916-2355.csv'')]
     \<lparr> csv_log = [], chart = [], log_file = NotOk \<rparr>))"
  by (simp only: timestamps_run_cycles) (simp add: timestamps_def)

text \<open>
  \<^bold>\<open>C6\<close>, amended. The timestamp of each appended record is the reading of the clock
  at the start of its cycle, and the records are appended in the order of the cycles.
  So the log is strictly ordered in time whenever the clock readings of the successive
  cycles are strictly increasing and later than what the log already holds; the logger
  itself does not reject a reading that is not.
\<close>

theorem log_timestamps_follow_clock:
  "timestamps (run_cycles B cs out) =
     timestamps out @
       map (\<lambda>c. toISOString (now (fst (snd c))))
         (filter (\<lambda>c. portfolioData (fst (snd c)) \<noteq> Undeclared) cs) \<and>
   (sorted_wrt (<) (timestamps out @ map (\<lambda>c. toISOString (now (fst (snd c)))) cs) \<longrightarrow>
      sorted_wrt (<) (timestamps (run_cycles B cs out)))"
proof (intro conjI impI)
  show "timestamps (run_cycles B cs out) =
     timestamps out @
       map (\<lambda>c. toISOString (now (fst (snd c))))
         (filter (\<lambda>c. portfolioData (fst (snd c)) \<noteq> Undeclared) cs)"
    by (rule timestamps_run_cycles)
next
  let ?clock = "\<lambda>c. toISOString (now (fst (snd c)))"
  let ?ok = "\<lambda>c. portfolioData (fst (snd c)) \<noteq> Undeclared"
  assume s: "sorted_wrt (<) (timestamps out @ map ?clock cs)"
  then have "sorted_wrt (<) (timestamps out)"
    and "sorted_wrt (<) (map ?clock cs)"
    and "\<forall>x \<in> set (timestamps out). \<forall>y \<in> set (map ?clock cs). x < y"
    by (simp_all add: sorted_wrt_append)
  then have "sorted_wrt (<) (timestamps out @ map ?clock (filter ?ok cs))"
    by (auto simp: sorted_wrt_append sorted_wrt_map intro: sorted_wrt_filter)
  then show "sorted_wrt (<) (timestamps (run_cycles B cs out))"
    by (simp add: timestamps_run_cycles)
qed

theorem log_timestamps_follow_clock_witness:
  "sorted_wrt (<) (timestamps (run_cycles
     \<lparr> parseFloat = (\<lambda>s. if s = ''5'' then Fin 5 else if s = ''-3'' then Fin (-3)
                        else if s = ''0'' then Fin 0 else if s = ''1000'' then Fin 1000
                        else if s = ''-2000'' then Fin (-2000) else NaN),
       fl = Fin,
       toFixed2 = (\<lambda>n. if n = Fin 40 then ''40.00'' else if n = Fin 1 then ''1.00''
                      else ''0.00''),
       numToString = (\<lambda>n. ''0'') \<rparr>
     [(PreExecution,
       \<lparr> now = \<lparr> toISOString = ''2025-09-17T00:05:00.000Z'', toLocaleString_Paris = ''02:05:00'',
               getHours = 2, getMinutes = 5 \<rparr>,
       api_csv_files = NotOk, head_local_csv = NotOk,
       api_csv_content = (\<lambda>f. NotOk), get_local_file = (\<lambda>f. NotOk),
       elements = [''daily-pnl'' \<mapsto> ''abc''],
       portfolioData = Positions [],
       cumulativePnL = Undefined, addPortfolioValueDataPoint = True \<rparr>,
       ''lpxd_external_advisors_DF_20250916-2355.csv''),
      (PostExecution,
       \<lparr> now = \<lparr> toISOString = ''2025-09-17T00:05:01.000Z'', toLocaleString_Paris = ''02:05:01'',
               getHours = 2, getMinutes = 5 \<rparr>,
       api_csv_files = NotOk, head_local_csv = NotOk,
       api_csv_content = (\<lambda>f. NotOk), get_local_file = (\<lambda>f. NotOk),
       elements = [''daily-pnl'' \<mapsto> ''abc''],
       portfolioData = Positions [],
       cumulativePnL = Undefined, addPortfolioValueDataPoint = True \<rparr>,
       ''lpxd_external_advisors_DF_20250916-2355.csv'')]
     \<lparr> csv_log = [], chart = [], log_file = NotOk \<rparr>)) \<and>
   timestamps (run_cycles
     \<lparr> parseFloat = (\<lambda>s. if s = ''5'' then Fin 5 else if s = ''-3'' then Fin (-3)
                        else if s = ''0'' then Fin 0 else if s = ''1000'' then Fin 1000
                        else if s = ''-2000'' then Fin (-2000) else NaN),
       fl = Fin,
       toFixed2 = (\<lambda>n. if n = Fin 40 then ''40.00'' else if n = Fin 1 then ''1.00''
                      else ''0.00''),
       numToString = (\<lambda>n. ''0'') \<rparr>
     [(PreExecution,
       \<lparr> now = \<lparr> toISOString = ''2025-09-17T00:05:00.000Z'', toLocaleString_Paris = ''02:05:00'',
               getHours = 2, getMinutes = 5 \<rparr>,
       api_csv_files = NotOk, head_local_csv = NotOk,
       api_csv_content = (\<lambda>f. NotOk), get_local_file = (\<lambda>f. NotOk),
       elements = [''daily-pnl'' \<mapsto> ''abc''],
       portfolioData = Positions [],
       cumulativePnL = Undefined, addPortfolioValueDataPoint = True \<rparr>,
       ''lpxd_external_advisors_DF_20250916-2355.csv''),
      (PostExecution,
       \<lparr> now = \<lparr> toISOString = ''2025-09-17T00:05:01.000Z'', toLocaleString_Paris = ''02:05:01'',
               getHours = 2, getMinutes = 5 \<rparr>,
       api_csv_files = NotOk, head_local_csv = NotOk,
       api_csv_content = (\<lambda>f. NotOk), get_local_file = (\<lambda>f. NotOk),
       elements = [''daily-pnl'' \<mapsto> ''abc''],
       portfolioData = Positions [],
       cumulativePnL = Undefined, addPortfolioValueDataPoint = True \<rparr>,
       ''lpxd_external_advisors_DF_20250916-2355.csv'')]
     \<lparr> csv_log = [], chart = [], log_file = NotOk \<rparr>)
   = [''2025-09-17T00:05:00.000Z'', ''2025-09-17T00:05:01.000Z'']"
proof -
  let ?B = "\<lparr> parseFloat = (\<lambda>s. if s = ''5'' then Fin 5 else if s = ''-3'' then Fin (-3)
                        else if s = ''0'' then Fin 0 else if s = ''1000'' then Fin 1000
                        else if s = ''-2000'' then Fin (-2000) else NaN),
       fl = Fin,
       toFixed2 = (\<lambda>n. if n = Fin 40 then ''40.00'' else if n = Fin 1 then ''1.00''
                      else ''0.00''),
       numToString = (\<lambda>n. ''0'') \<rparr>"
  let ?cs = "[(PreExecution,
       \<lparr> now = \<lparr> toISOString = ''2025-09-17T00:05:00.000Z'', toLocaleString_Paris = ''02:05:00'',
               getHours = 2, getMinutes = 5 \<rparr>,
       api_csv_files = NotOk, head_local_csv = NotOk,
       api_csv_content = (\<lambda>f. NotOk), get_local_file = (\<lambda>f. NotOk),
       elements = [''daily-pnl'' \<mapsto> ''abc''],
       portfolioData = Positions [],
       cumulativePnL = Undefined, addPortfolioValueDataPoint = True \<rparr>,
       ''lpxd_external_advisors_DF_20250916-2355.csv''),
      (PostExecution,
       \<lparr> now = \<lparr> toISOString = ''2025-09-17T00:05:01.000Z'', toLocaleString_Paris = ''02:05:01'',
               getHours = 2, getMinutes = 5 \<rparr>,
       api_csv_files = NotOk, head_local_csv = NotOk,
       api_csv_content = (\<lambda>f. NotOk), get_local_file = (\<lambda>f. NotOk),
       elements = [''daily-pnl'' \<mapsto> ''abc''],
       portfolioData = Positions [],
       cumulativePnL = Undefined, addPortfolioValueDataPoint = True \<rparr>,
       ''lpxd_external_advisors_DF_20250916-2355.csv'')]"
  let ?out = "\<lparr> csv_log = [], chart = [], log_file = NotOk \<rparr>"
  note r = log_timestamps_follow_clock [of ?B ?cs ?out]
  have s: "sorted_wrt (<) (timestamps ?out @ map (\<lambda>c. toISOString (now (fst (snd c)))) ?cs)"
    by (simp add: timestamps_def)
  from r s have a: "sorted_wrt (<) (timestamps (run_cycles ?B ?cs ?out))"
    by blast
  from r have b: "timestamps (run_cycles ?B ?cs ?out) =
      [''2025-09-17T00:05:00.000Z'', ''2025-09-17T00:05:01.000Z'']"
    by (simp add: timestamps_def)
  from a b show ?thesis by (rule conjI)
qed

end
